theory Spec2Isabelle
  imports Complex_Main "HOL-Library.AList"
begin

section \<open>JavaScript values\<close>

text \<open>
  The service is TypeScript running on a JavaScript engine.  Counters of tests are
  modelled as natural numbers; they stand for JavaScript numbers below \<open>2 ^ 53\<close>, which
  hold them exactly.  A pass rate is the only value that is the result of a division.  It
  is a double: \<open>Num q\<close> is the finite double of value \<open>q\<close>, and \<open>NaN\<close> and \<open>Infinity\<close>
  are what a division by zero returns.
\<close>

datatype js_number = Num rat | NaN | Infinity

subsection \<open>Rounding to a double\<close>

text \<open>
  A finite double is \<open>m * s\<close> for an integer significand \<open>m\<close> of 53 bits and a power
  of two \<open>s\<close>.  \<open>normalise\<close> writes a positive rational as such a product with a
  rational \<open>m\<close> between \<open>2 ^ 52\<close> and \<open>2 ^ 53\<close>, by doubling or halving.  The exponents of
  the quotients of counters and of their products with 100 stay far inside the range of a
  double, so overflow and underflow are not modelled.
\<close>

definition least_significand :: rat where
  "least_significand = 2 ^ 52"

function normalise :: "rat \<Rightarrow> rat \<times> rat" where
  "normalise x =
     (if x \<le> 0 then (x, 1)
      else if x < least_significand
        then (case normalise (2 * x) of (m, s) \<Rightarrow> (m, s / 2))
      else if 2 * least_significand \<le> x
        then (case normalise (x / 2) of (m, s) \<Rightarrow> (m, s * 2))
      else (x, 1))"
  by pat_completeness auto
termination
proof (relation "measure (\<lambda>x. if x \<le> 0 then 0
                          else if x < least_significand then nat \<lceil>least_significand / x\<rceil>
                          else if 2 * least_significand \<le> x then nat \<lfloor>x\<rfloor> else 0)")
  show "wf (measure (\<lambda>x. if x \<le> 0 then 0
                          else if x < least_significand then nat \<lceil>least_significand / x\<rceil>
                          else if 2 * least_significand \<le> x then nat \<lfloor>x\<rfloor> else 0))"
    by simp
next
  fix x :: rat
  assume pos: "\<not> x \<le> 0" and small: "x < least_significand"
  define y where "y = least_significand / x"
  have y: "1 < y" using pos small by (simp add: y_def)
  have half: "least_significand / (2 * x) = y / 2" by (simp add: y_def)
  have c2: "2 \<le> \<lceil>y\<rceil>" using y by linarith
  have "y \<le> of_int \<lceil>y\<rceil>" by simp
  moreover have "(2::rat) \<le> of_int \<lceil>y\<rceil>" using c2 by linarith
  ultimately have "y / 2 \<le> of_int \<lceil>y\<rceil> - 1" by linarith
  then have "y / 2 \<le> of_int (\<lceil>y\<rceil> - 1)" by simp
  then have "\<lceil>y / 2\<rceil> \<le> \<lceil>y\<rceil> - 1" by (simp only: ceiling_le_iff)
  with c2 have "nat \<lceil>y / 2\<rceil> < nat \<lceil>y\<rceil>" by linarith
  moreover have "0 < nat \<lceil>y\<rceil>" using c2 by linarith
  ultimately show "(2 * x, x) \<in> measure (\<lambda>x. if x \<le> 0 then 0
                          else if x < least_significand then nat \<lceil>least_significand / x\<rceil>
                          else if 2 * least_significand \<le> x then nat \<lfloor>x\<rfloor> else 0)"
    using pos small by (simp add: half y_def [symmetric])
next
  fix x :: rat
  assume pos: "\<not> x \<le> 0" and "\<not> x < least_significand" and big: "2 * least_significand \<le> x"
  have "(1::rat) \<le> least_significand" by (simp add: least_significand_def)
  with big have x2: "2 \<le> x" by linarith
  then have f2: "2 \<le> \<lfloor>x\<rfloor>" by linarith
  have "x < of_int \<lfloor>x\<rfloor> + 1" by linarith
  moreover have "(2::rat) \<le> of_int \<lfloor>x\<rfloor>" using f2 by linarith
  ultimately have "x / 2 < of_int \<lfloor>x\<rfloor>" by linarith
  then have "\<lfloor>x / 2\<rfloor> < \<lfloor>x\<rfloor>" by (simp only: floor_less_iff)
  with f2 have "nat \<lfloor>x / 2\<rfloor> < nat \<lfloor>x\<rfloor>" by linarith
  moreover have "0 < nat \<lfloor>x\<rfloor>" using f2 by linarith
  ultimately show "(x / 2, x) \<in> measure (\<lambda>x. if x \<le> 0 then 0
                          else if x < least_significand then nat \<lceil>least_significand / x\<rceil>
                          else if 2 * least_significand \<le> x then nat \<lfloor>x\<rfloor> else 0)"
    using pos big x2 by simp
qed

declare normalise.simps [simp del]

text \<open>The nearest integer, the even one on a tie.\<close>

definition round_even :: "rat \<Rightarrow> int" where
  "round_even m =
     (let n = \<lfloor>m\<rfloor>; r = m - rat_of_int n
      in if r < 1 / 2 then n else if 1 / 2 < r then n + 1 else if even n then n else n + 1)"

text \<open>
  The result of an arithmetic operation on doubles is its exact result rounded to the
  nearest double, to the one with the even significand on a tie.
\<close>

definition double :: "rat \<Rightarrow> rat" where
  "double x =
     (if x = 0 then 0
      else (case normalise \<bar>x\<bar> of (m, s) \<Rightarrow> sgn x * rat_of_int (round_even m) * s))"

text \<open>\<^verbatim>\<open>a / b\<close> on two counters.\<close>

definition js_div :: "nat \<Rightarrow> nat \<Rightarrow> js_number" where
  "js_div a b =
     (if b = 0 then (if a = 0 then NaN else Infinity)
      else Num (double (rat_of_nat a / rat_of_nat b)))"

text \<open>\<^verbatim>\<open>x * 100\<close>.\<close>

fun times100 :: "js_number \<Rightarrow> js_number" where
  "times100 (Num q) = Num (double (q * 100))"
| "times100 NaN = NaN"
| "times100 Infinity = Infinity"

text \<open>
  \<^verbatim>\<open>parseFloat(x.toFixed(1))\<close>.  For a number below \<open>10 ^ 21\<close> in magnitude, as every
  rate is, \<open>toFixed(1)\<close> prints the sign and the integer \<open>n\<close> for which \<open>n / 10\<close> is
  closest to the value of the double \<open>\<bar>x\<bar>\<close>, the larger one on a tie, with one decimal;
  \<open>parseFloat\<close> reads the decimal back as the nearest double.  On \<open>NaN\<close> and \<open>Infinity\<close>
  the names are printed and read back.
\<close>

fun toFixed1 :: "js_number \<Rightarrow> js_number" where
  "toFixed1 (Num q) = Num (double (sgn q * rat_of_int \<lfloor>\<bar>q\<bar> * 10 + 1 / 2\<rfloor> / 10))"
| "toFixed1 NaN = NaN"
| "toFixed1 Infinity = Infinity"

text \<open>\<^verbatim>\<open>`${n}`\<close> and \<^verbatim>\<open>n.toString()\<close> on a natural number: its decimal digits.\<close>

definition digit_char :: "nat \<Rightarrow> char" where
  "digit_char d =
     (if d = 0 then CHR ''0'' else if d = 1 then CHR ''1'' else if d = 2 then CHR ''2''
      else if d = 3 then CHR ''3'' else if d = 4 then CHR ''4'' else if d = 5 then CHR ''5''
      else if d = 6 then CHR ''6'' else if d = 7 then CHR ''7'' else if d = 8 then CHR ''8''
      else CHR ''9'')"

fun string_of_nat :: "nat \<Rightarrow> string" where
  "string_of_nat n =
     (if n < 10 then [digit_char n]
      else string_of_nat (n div 10) @ [digit_char (n mod 10)])"

declare string_of_nat.simps [simp del]

text \<open>
  What the service can throw: \<open>request\<close> throws on a response that is not ok (with
  status and status text) or when \<open>fetch\<close> itself rejects; reading an identifier that
  no scope binds throws a \<open>ReferenceError\<close>, and reading a property of \<open>undefined\<close> a
  \<open>TypeError\<close>; the last three carry their message.
\<close>

datatype js_error =
    HttpError nat string
  | NetworkError string
  | ReferenceError string
  | TypeError string

text \<open>\<open>err.message\<close>; \<open>request\<close> builds the message of its own error.\<close>

fun message :: "js_error \<Rightarrow> string" where
  "message (HttpError status statusText) =
     ''Azure DevOps API error: '' @ string_of_nat status @ '' '' @ statusText"
| "message (NetworkError msg) = msg"
| "message (ReferenceError msg) = msg"
| "message (TypeError msg) = msg"

text \<open>A string in a condition is true unless it is empty; \<^verbatim>\<open>a || b\<close> on strings.\<close>

definition str_or :: "string \<Rightarrow> string \<Rightarrow> string" where
  "str_or a b = (if a \<noteq> [] then a else b)"

section \<open>Records of the remote API\<close>

text \<open>
  The interfaces \<open>AzureTestRun\<close>, \<open>AzureTestResult\<close>, \<open>AzureWorkItem\<close> and \<open>AzureBuild\<close>,
  with the fields the service reads.  A field marked \<open>?\<close> in the interface is an option.
\<close>

record test_run =
  tr_id :: nat
  tr_name :: string
  tr_isAutomated :: bool
  tr_totalTests :: nat
  tr_passedTests :: nat
  tr_failedTests :: nat
  tr_notApplicableTests :: nat

datatype outcome = Passed | Failed | NotExecuted | Blocked

record test_result =
  res_id :: nat
  res_testCaseTitle :: string
  res_outcome :: outcome
  res_automatedTestName :: "string option"

record work_item =
  wi_id :: nat
  wi_Title :: string
  wi_State :: string
  wi_AssignedTo :: "string option"
  wi_Severity :: "string option"
  wi_CreatedDate :: string
  wi_AreaPath :: string

record build_definition =
  def_name :: string
  def_id :: nat

record build =
  bld_id :: nat
  bld_buildNumber :: string
  bld_startTime :: string
  bld_finishTime :: string
  bld_definition :: build_definition

type_synonym date = string

text \<open>
  The remote API, as the outcome of every request the service can send: the value the
  response decodes to, or what \<open>request\<close> throws.  Requests on a project are indexed by
  the project's name; \<open>children\<close> of the area tree and \<open>workItems\<close> of a query answer are
  optional in the responses.
\<close>

record remote =
  r_buildsByDate :: "string \<Rightarrow> date \<Rightarrow> js_error + build list"
  r_testRunsForBuild :: "string \<Rightarrow> nat \<Rightarrow> js_error + test_run list"
  r_testResults :: "string \<Rightarrow> nat \<Rightarrow> js_error + test_result list"
  r_testRuns :: "string \<Rightarrow> js_error + test_run list"
  r_areas :: "string \<Rightarrow> js_error + string list option"
  r_wiql :: "string \<Rightarrow> string \<Rightarrow> js_error + nat list option"
  r_workItems :: "string \<Rightarrow> nat list \<Rightarrow> js_error + work_item list"

section \<open>The reporting model\<close>

text \<open>
  \<open>TestTypeBreakdown\<close>, \<open>ModuleTestResult\<close> and \<open>ProjectData\<close>.  A module is a plain
  object: its \<open>automated\<close> and \<open>manual\<close> breakdowns are \<open>None\<close> when the object literal
  that built it has no such property.
\<close>

record breakdown =
  b_total :: nat
  b_passed :: nat
  b_failed :: nat
  b_skipped :: nat
  b_passRate :: js_number

record module_result =
  m_moduleId :: string
  m_moduleName :: string
  m_totalTests :: nat
  m_executed :: nat
  m_passed :: nat
  m_failed :: nat
  m_skipped :: nat
  m_passRate :: js_number
  m_automatedTests :: nat
  m_manualTests :: nat
  m_automated :: "breakdown option"
  m_manual :: "breakdown option"
  m_linkedDefects :: "string list"
  m_lastRunTime :: "string option"

record project_data =
  p_projectId :: string
  p_projectName :: string
  p_modules :: "module_result list"
  p_totalTests :: nat
  p_executed :: nat
  p_passed :: nat
  p_failed :: nat
  p_skipped :: nat
  p_passRate :: js_number
  p_automatedTests :: nat
  p_manualTests :: nat
  p_automated :: breakdown
  p_manual :: breakdown
  p_lastRunTime :: "string option"
  p_runCount :: "nat option"

text \<open>\<open>buildBreakdown\<close>: the pass rate is guarded against an empty denominator.\<close>

definition buildBreakdown :: "nat \<Rightarrow> nat \<Rightarrow> nat \<Rightarrow> nat \<Rightarrow> breakdown" where
  "buildBreakdown total' passed failed skipped =
     \<lparr> b_total = total', b_passed = passed, b_failed = failed, b_skipped = skipped,
       b_passRate =
         (if passed + failed > 0 then toFixed1 (times100 (js_div passed (passed + failed)))
          else Num 0) \<rparr>"

section \<open>The pipeline-centric strategy\<close>

subsection \<open>\<open>getTestResultsByPipelines\<close>\<close>

record pipeline_result =
  pr_pipelineName :: string
  pr_definitionId :: nat
  pr_buildId :: nat
  pr_buildNumber :: string
  pr_completedDate :: string
  pr_totalTests :: nat
  pr_passed :: nat
  pr_failed :: nat
  pr_skipped :: nat
  pr_results :: "test_result list"

text \<open>
  The inner loop over the test runs of one build: the four sums and the collected
  results, or the error of the first \<open>getTestResults\<close> that throws.
\<close>

fun collectRuns ::
  "(nat \<Rightarrow> js_error + test_result list) \<Rightarrow> test_run list \<Rightarrow>
   nat \<times> nat \<times> nat \<times> nat \<times> test_result list \<Rightarrow>
   js_error + nat \<times> nat \<times> nat \<times> nat \<times> test_result list" where
  "collectRuns getResults [] acc = Inr acc"
| "collectRuns getResults (run # runs) (totalTests, passed, failed, skipped, allResults) =
     (case getResults (tr_id run) of
        Inl e \<Rightarrow> Inl e
      | Inr results \<Rightarrow>
          collectRuns getResults runs
            (totalTests + tr_totalTests run, passed + tr_passedTests run,
             failed + tr_failedTests run, skipped + tr_notApplicableTests run,
             allResults @ results))"

text \<open>
  The body of the \<open>try\<close> for one build: \<open>Inl e\<close> when it throws, \<open>Inr None\<close> when the
  build has no test run (\<open>continue\<close>), \<open>Inr (Some s)\<close> when the summary \<open>s\<close> is pushed.
\<close>

definition buildSummary :: "remote \<Rightarrow> string \<Rightarrow> build \<Rightarrow> js_error + pipeline_result option" where
  "buildSummary api project b =
     (case r_testRunsForBuild api project (bld_id b) of
        Inl e \<Rightarrow> Inl e
      | Inr testRuns \<Rightarrow>
          if testRuns = [] then Inr None
          else
            (case collectRuns (r_testResults api project) testRuns (0, 0, 0, 0, []) of
               Inl e \<Rightarrow> Inl e
             | Inr (totalTests, passed, failed, skipped, allResults) \<Rightarrow>
                 Inr (Some
                   \<lparr> pr_pipelineName = def_name (bld_definition b),
                     pr_definitionId = def_id (bld_definition b),
                     pr_buildId = bld_id b,
                     pr_buildNumber = bld_buildNumber b,
                     pr_completedDate = str_or (bld_finishTime b) (bld_startTime b),
                     pr_totalTests = totalTests,
                     pr_passed = passed,
                     pr_failed = failed,
                     pr_skipped = skipped,
                     pr_results = allResults \<rparr>)))"

text \<open>The loop over the builds: the \<open>catch\<close> drops a build whose body threw.\<close>

fun forBuilds ::
  "remote \<Rightarrow> string \<Rightarrow> build list \<Rightarrow> pipeline_result list \<Rightarrow> pipeline_result list" where
  "forBuilds api project [] pipelineResults = pipelineResults"
| "forBuilds api project (b # builds) pipelineResults =
     (case buildSummary api project b of
        Inl e \<Rightarrow> forBuilds api project builds pipelineResults
      | Inr None \<Rightarrow> forBuilds api project builds pipelineResults
      | Inr (Some s) \<Rightarrow> forBuilds api project builds (pipelineResults @ [s]))"

text \<open>The listing of the builds is outside the \<open>try\<close>: its error is thrown on.\<close>

definition getTestResultsByPipelines ::
  "remote \<Rightarrow> string \<Rightarrow> date \<Rightarrow> js_error + pipeline_result list" where
  "getTestResultsByPipelines api project date =
     (case r_buildsByDate api project date of
        Inl e \<Rightarrow> Inl e
      | Inr builds \<Rightarrow> Inr (forBuilds api project builds []))"

subsection \<open>\<open>getProjectDataFromPipelines\<close>\<close>

text \<open>
  An optional string in a condition: true when the field is present and not empty.
\<close>

definition truthy :: "string option \<Rightarrow> bool" where
  "truthy v = (case v of None \<Rightarrow> False | Some s \<Rightarrow> s \<noteq> [])"

text \<open>
  The six local constants the callback of \<open>pipelineResults.map\<close> computes from the
  results of one summary.  The object literal the callback returns reads none of them.
\<close>

definition autoCount :: "pipeline_result \<Rightarrow> nat" where
  "autoCount pr = length (filter (\<lambda>r. truthy (res_automatedTestName r)) (pr_results pr))"

definition manualCount :: "pipeline_result \<Rightarrow> nat" where
  "manualCount pr = length (pr_results pr) - autoCount pr"

definition autoPassed :: "pipeline_result \<Rightarrow> nat" where
  "autoPassed pr =
     length (filter (\<lambda>r. truthy (res_automatedTestName r) \<and> res_outcome r = Passed) (pr_results pr))"

definition autoFailed :: "pipeline_result \<Rightarrow> nat" where
  "autoFailed pr =
     length (filter (\<lambda>r. truthy (res_automatedTestName r) \<and> res_outcome r = Failed) (pr_results pr))"

definition autoSkipped :: "pipeline_result \<Rightarrow> nat" where
  "autoSkipped pr = autoCount pr - autoPassed pr - autoFailed pr"

definition manualPassed :: "pipeline_result \<Rightarrow> nat" where
  "manualPassed pr =
     length (filter (\<lambda>r. \<not> truthy (res_automatedTestName r) \<and> res_outcome r = Passed) (pr_results pr))"

text \<open>
  The callback itself.  Its object literal reads two identifiers, \<open>automated\<close> and
  \<open>manual\<close>, that the callback does not declare; they are parameters here, \<open>None\<close> for
  an identifier that no enclosing scope binds (the file declares and imports neither).
  The properties are evaluated in order, so the first unbound identifier throws.  The
  literal has no \<open>automated\<close> and no \<open>manual\<close> property.
\<close>

definition pipelineModule ::
  "nat option \<Rightarrow> nat option \<Rightarrow> pipeline_result \<Rightarrow> js_error + module_result" where
  "pipelineModule automated manual pr =
     (case automated of
        None \<Rightarrow> Inl (ReferenceError ''automated is not defined'')
      | Some automated' \<Rightarrow>
          (case manual of
             None \<Rightarrow> Inl (ReferenceError ''manual is not defined'')
           | Some manual' \<Rightarrow>
               Inr \<lparr> m_moduleId = ''pipeline-'' @ string_of_nat (pr_definitionId pr),
                     m_moduleName = pr_pipelineName pr,
                     m_totalTests = pr_totalTests pr,
                     m_executed = pr_passed pr + pr_failed pr,
                     m_passed = pr_passed pr,
                     m_failed = pr_failed pr,
                     m_skipped = pr_skipped pr,
                     m_passRate =
                       (if pr_passed pr + pr_failed pr > 0
                        then times100 (js_div (pr_passed pr) (pr_passed pr + pr_failed pr))
                        else Num 0),
                     m_automatedTests =
                       (if automated' \<noteq> 0 then automated' else pr_totalTests pr),
                     m_manualTests = manual',
                     m_automated = None,
                     m_manual = None,
                     m_linkedDefects = [],
                     m_lastRunTime = Some (pr_completedDate pr) \<rparr>))"

text \<open>\<open>Array.prototype.map\<close> with a callback that can throw: the first throw ends it.\<close>

fun mapE :: "('a \<Rightarrow> js_error + 'b) \<Rightarrow> 'a list \<Rightarrow> js_error + 'b list" where
  "mapE f [] = Inr []"
| "mapE f (x # xs) =
     (case f x of
        Inl e \<Rightarrow> Inl e
      | Inr y \<Rightarrow> (case mapE f xs of Inl e \<Rightarrow> Inl e | Inr ys \<Rightarrow> Inr (y # ys)))"

text \<open>
  \<^verbatim>\<open>modules.reduce((s, m) => s + m.automated.passed, 0)\<close> and its siblings: reading a
  counter of a breakdown that the module does not have throws a \<open>TypeError\<close>.
\<close>

fun reduceBreakdown ::
  "(module_result \<Rightarrow> breakdown option) \<Rightarrow> (breakdown \<Rightarrow> nat) \<Rightarrow> module_result list \<Rightarrow> nat \<Rightarrow>
   js_error + nat" where
  "reduceBreakdown sel counter [] s = Inr s"
| "reduceBreakdown sel counter (m # ms) s =
     (case sel m of
        None \<Rightarrow> Inl (TypeError ''Cannot read properties of undefined'')
      | Some b \<Rightarrow> reduceBreakdown sel counter ms (s + counter b))"

definition bindE :: "js_error + 'a \<Rightarrow> ('a \<Rightarrow> js_error + 'b) \<Rightarrow> js_error + 'b" where
  "bindE r f = (case r of Inl e \<Rightarrow> Inl e | Inr x \<Rightarrow> f x)"

text \<open>
  The project of a non-empty list of summaries, from the sums over its modules
  (\<open>modules.reduce\<close> on each counter), in the order the source evaluates them.
\<close>

definition pipelinesProject ::
  "string \<Rightarrow> pipeline_result list \<Rightarrow> module_result list \<Rightarrow> js_error + project_data" where
  "pipelinesProject projectName pipelineResults modules =
     (let totalTests = sum_list (map m_totalTests modules);
          totalPassed = sum_list (map m_passed modules);
          totalFailed = sum_list (map m_failed modules);
          totalSkipped = sum_list (map m_skipped modules);
          totalAutomated = sum_list (map m_automatedTests modules);
          totalManual = sum_list (map m_manualTests modules);
          executed = totalPassed + totalFailed
      in
        bindE (reduceBreakdown m_automated b_passed modules 0) (\<lambda>ap.
        bindE (reduceBreakdown m_automated b_failed modules 0) (\<lambda>af.
        bindE (reduceBreakdown m_automated b_skipped modules 0) (\<lambda>as.
        bindE (reduceBreakdown m_manual b_passed modules 0) (\<lambda>mp.
        bindE (reduceBreakdown m_manual b_failed modules 0) (\<lambda>mf.
        bindE (reduceBreakdown m_manual b_skipped modules 0) (\<lambda>ms.
          Inr \<lparr> p_projectId = ''proj-'' @ projectName,
                p_projectName = projectName,
                p_modules = modules,
                p_totalTests = totalTests,
                p_executed = executed,
                p_passed = totalPassed,
                p_failed = totalFailed,
                p_skipped = totalSkipped,
                p_passRate =
                  (if executed > 0 then times100 (js_div totalPassed executed) else Num 0),
                p_automatedTests = totalAutomated,
                p_manualTests = totalManual,
                p_automated = buildBreakdown totalAutomated ap af as,
                p_manual = buildBreakdown totalManual mp mf ms,
                p_lastRunTime =
                  (case pipelineResults of [] \<Rightarrow> None | s # _ \<Rightarrow> Some (pr_completedDate s)),
                p_runCount = Some (length pipelineResults) \<rparr>)))))))"

text \<open>The project of a day without test data.\<close>

definition emptyProject :: "string \<Rightarrow> project_data" where
  "emptyProject projectName =
     \<lparr> p_projectId = ''proj-'' @ projectName,
       p_projectName = projectName,
       p_modules = [],
       p_totalTests = 0,
       p_executed = 0,
       p_passed = 0,
       p_failed = 0,
       p_skipped = 0,
       p_passRate = Num 0,
       p_automatedTests = 0,
       p_manualTests = 0,
       p_automated = buildBreakdown 0 0 0 0,
       p_manual = buildBreakdown 0 0 0 0,
       p_lastRunTime = None,
       p_runCount = None \<rparr>"

text \<open>
  \<open>getProjectDataFromPipelines\<close>: everything is inside one \<open>try\<close>, and the \<open>catch\<close>
  returns \<open>null\<close>, which is \<open>None\<close> here.  The environment is not read.
\<close>

definition getProjectDataFromPipelines ::
  "nat option \<Rightarrow> nat option \<Rightarrow> remote \<Rightarrow> string \<Rightarrow> string \<Rightarrow> date \<Rightarrow> project_data option" where
  "getProjectDataFromPipelines automated manual api projectName environment date =
     (case getTestResultsByPipelines api projectName date of
        Inl e \<Rightarrow> None
      | Inr pipelineResults \<Rightarrow>
          if pipelineResults = [] then Some (emptyProject projectName)
          else
            (case bindE (mapE (pipelineModule automated manual) pipelineResults)
                    (pipelinesProject projectName pipelineResults) of
               Inl e \<Rightarrow> None
             | Inr p \<Rightarrow> Some p))"

section \<open>Defects\<close>

subsection \<open>\<open>getDefects\<close>\<close>

text \<open>
  The requests \<open>getDefects\<close> sends, in order: the query for the ids, then the fetch of
  the work items of a list of ids.
\<close>

datatype request = WiqlQuery string string | WorkItemsBatch string "nat list"

definition apostrophe :: string where
  "apostrophe = [CHR 0x27]"

text \<open>\<open>Array.prototype.join\<close>.\<close>

fun join :: "string \<Rightarrow> string list \<Rightarrow> string" where
  "join sep [] = []"
| "join sep [x] = x"
| "join sep (x # y # ys) = x @ sep @ join sep (y # ys)"

definition stateFilter :: "string list option \<Rightarrow> string" where
  "stateFilter states =
     (case states of
        None \<Rightarrow> ''AND [System.State] <> '' @ apostrophe @ ''Closed'' @ apostrophe
      | Some ss \<Rightarrow>
          if ss \<noteq> []
          then ''AND [System.State] IN ('' @ apostrophe
               @ join (apostrophe @ '','' @ apostrophe) ss @ apostrophe @ '')''
          else ''AND [System.State] <> '' @ apostrophe @ ''Closed'' @ apostrophe)"

definition defectQuery :: "string \<Rightarrow> string list option \<Rightarrow> string" where
  "defectQuery project states =
     ''SELECT [System.Id] FROM WorkItems WHERE [System.TeamProject] = '' @ apostrophe
     @ project @ apostrophe @ '' AND [System.WorkItemType] = '' @ apostrophe @ ''Bug''
     @ apostrophe @ '' '' @ stateFilter states @ '' ORDER BY [System.CreatedDate] DESC''"

text \<open>
  \<open>getDefects\<close>, with the list of the requests it has sent beside its result.  The ids
  of the answer are cut to the first 200 (\<open>slice(0, 200)\<close>) and fetched in one request.
\<close>

definition getDefects ::
  "remote \<Rightarrow> string \<Rightarrow> string list option \<Rightarrow> request list \<times> (js_error + work_item list)" where
  "getDefects api project states =
     (let query = defectQuery project states in
      case r_wiql api project query of
        Inl e \<Rightarrow> ([WiqlQuery project query], Inl e)
      | Inr None \<Rightarrow> ([WiqlQuery project query], Inr [])
      | Inr (Some workItems) \<Rightarrow>
          if workItems = [] then ([WiqlQuery project query], Inr [])
          else
            (let ids = take 200 workItems in
             ([WiqlQuery project query, WorkItemsBatch project ids],
              r_workItems api project ids)))"

subsection \<open>\<open>transformDefects\<close>\<close>

record config =
  cfg_organization :: string
  cfg_personalAccessToken :: string
  cfg_baseUrl :: string

text \<open>The fields of the service object, set by its constructor.\<close>

record service =
  svc_baseUrl :: string
  svc_organization :: string
  svc_token :: string

definition newService :: "config \<Rightarrow> service" where
  "newService cfg =
     \<lparr> svc_baseUrl = str_or (cfg_baseUrl cfg) ''https://dev.azure.com'',
       svc_organization = cfg_organization cfg,
       svc_token = cfg_personalAccessToken cfg \<rparr>"

definition isAzureDevOpsConfigured :: "config \<Rightarrow> bool" where
  "isAzureDevOpsConfigured cfg = (cfg_organization cfg \<noteq> [] \<and> cfg_personalAccessToken cfg \<noteq> [])"

definition createAzureDevOpsService :: "config \<Rightarrow> service option" where
  "createAzureDevOpsService cfg =
     (if \<not> isAzureDevOpsConfigured cfg then None else Some (newService cfg))"

datatype severity = Critical | Major | Minor | Trivial

datatype status = Open | InProgress | Resolved | Closed

text \<open>
  \<open>severityMap\<close> and \<open>statusMap\<close> are object literals, and \<^verbatim>\<open>map[key]\<close> on an object
  literal also finds what the object inherits from \<open>Object.prototype\<close>: a key that is
  the name of one of its members yields that member (a function or an object, true in a
  condition), not \<open>undefined\<close>.  \<open>Own v\<close> is a value of the literal, \<open>Inherited k\<close> the
  inherited member of name \<open>k\<close>.
\<close>

datatype 'a property = Own 'a | Inherited string

definition object_prototype_names :: "string list" where
  "object_prototype_names =
     [''constructor'', ''__defineGetter__'', ''__defineSetter__'', ''hasOwnProperty'',
      ''__lookupGetter__'', ''__lookupSetter__'', ''isPrototypeOf'',
      ''propertyIsEnumerable'', ''toString'', ''valueOf'', ''__proto__'',
      ''toLocaleString'']"

definition lookupProperty :: "(string \<times> 'a) list \<Rightarrow> string \<Rightarrow> 'a property option" where
  "lookupProperty obj key =
     (case map_of obj key of
        Some v \<Rightarrow> Some (Own v)
      | None \<Rightarrow> if key \<in> set object_prototype_names then Some (Inherited key) else None)"

definition severityMap :: "(string \<times> severity) list" where
  "severityMap =
     [(''1 - Critical'', Critical), (''2 - High'', Major), (''3 - Medium'', Minor),
      (''4 - Low'', Trivial)]"

definition statusMap :: "(string \<times> status) list" where
  "statusMap =
     [(''New'', Open), (''Active'', Open), (''In Progress'', InProgress),
      (''Resolved'', Resolved), (''Closed'', Closed)]"

record defect =
  d_id :: string
  d_title :: string
  d_severity :: "severity property"
  d_status :: "status property"
  d_assignee :: string
  d_createdDate :: string
  d_environment :: string
  d_linkedTestIds :: "string list"
  d_workItemUrl :: string

definition transformDefect :: "service \<Rightarrow> string \<Rightarrow> work_item \<Rightarrow> defect" where
  "transformDefect svc environment wi =
     \<lparr> d_id = ''DEF-'' @ string_of_nat (wi_id wi),
       d_title = wi_Title wi,
       d_severity =
         (case lookupProperty severityMap
                 (case wi_Severity wi of None \<Rightarrow> [] | Some sev \<Rightarrow> str_or sev []) of
            None \<Rightarrow> Own Minor
          | Some v \<Rightarrow> v),
       d_status =
         (case lookupProperty statusMap (wi_State wi) of
            None \<Rightarrow> Own Open
          | Some v \<Rightarrow> v),
       d_assignee =
         (case wi_AssignedTo wi of
            None \<Rightarrow> ''Unassigned''
          | Some displayName \<Rightarrow> str_or displayName ''Unassigned''),
       d_createdDate = wi_CreatedDate wi,
       d_environment = environment,
       d_linkedTestIds = [],
       d_workItemUrl =
         svc_baseUrl svc @ ''/'' @ svc_organization svc @ ''/_workitems/edit/''
         @ string_of_nat (wi_id wi) \<rparr>"

definition transformDefects :: "service \<Rightarrow> work_item list \<Rightarrow> string \<Rightarrow> defect list" where
  "transformDefects svc azureDefects environment =
     map (transformDefect svc environment) azureDefects"

section \<open>The test-plan-centric strategy\<close>

definition getTestRuns :: "remote \<Rightarrow> string \<Rightarrow> js_error + test_run list" where
  "getTestRuns api project = r_testRuns api project"

definition getAreaPaths :: "remote \<Rightarrow> string \<Rightarrow> js_error + string list" where
  "getAreaPaths api project =
     (case r_areas api project of
        Inl e \<Rightarrow> Inl e
      | Inr children \<Rightarrow> Inr (case children of None \<Rightarrow> [] | Some names \<Rightarrow> names))"

text \<open>\<open>String.prototype.split\<close> on a one-character separator, and \<open>Array.prototype.pop\<close>.\<close>

fun split :: "char \<Rightarrow> string \<Rightarrow> string list" where
  "split sep [] = [[]]"
| "split sep (c # cs) =
     (if c = sep then [] # split sep cs
      else (case split sep cs of [] \<Rightarrow> [[c]] | w # ws \<Rightarrow> (c # w) # ws))"

definition pop :: "'a list \<Rightarrow> 'a option" where
  "pop xs = (case rev xs of [] \<Rightarrow> None | x # _ \<Rightarrow> Some x)"

definition backslash :: char where
  "backslash = CHR 0x5C"

text \<open>\<^verbatim>\<open>defect.fields['System.AreaPath'].split('\\').pop() || ''\<close>\<close>

definition areaTail :: "work_item \<Rightarrow> string" where
  "areaTail defect =
     (case pop (split backslash (wi_AreaPath defect)) of
        None \<Rightarrow> []
      | Some segment \<Rightarrow> str_or segment [])"

text \<open>
  \<open>moduleMap\<close> is a \<open>Map\<close>: an association list in the order the keys were first set.
  \<open>set\<close> on a key that is present replaces its value in place.
\<close>

definition initialModule :: "string \<Rightarrow> module_result" where
  "initialModule areaPath =
     \<lparr> m_moduleId = ''mod-'' @ areaPath,
       m_moduleName = areaPath,
       m_totalTests = 0,
       m_executed = 0,
       m_passed = 0,
       m_failed = 0,
       m_skipped = 0,
       m_passRate = Num 0,
       m_automatedTests = 0,
       m_manualTests = 0,
       m_automated = Some (buildBreakdown 0 0 0 0),
       m_manual = Some (buildBreakdown 0 0 0 0),
       m_linkedDefects = [],
       m_lastRunTime = None \<rparr>"

definition initModules :: "string list \<Rightarrow> (string \<times> module_result) list" where
  "initModules areaPaths =
     fold (\<lambda>areaPath moduleMap. AList.update areaPath (initialModule areaPath) moduleMap)
       areaPaths []"

text \<open>
  One step of \<open>defects.forEach\<close>: the module found under the tail of the area path gets
  the id pushed on its \<open>linkedDefects\<close>; the module is mutated where it stands in the map.
\<close>

definition linkDefect ::
  "work_item \<Rightarrow> (string \<times> module_result) list \<Rightarrow> (string \<times> module_result) list" where
  "linkDefect defect moduleMap =
     (let areaPath = areaTail defect in
      case map_of moduleMap areaPath of
        None \<Rightarrow> moduleMap
      | Some module' \<Rightarrow>
          AList.update areaPath
            (module'\<lparr> m_linkedDefects := m_linkedDefects module' @ [string_of_nat (wi_id defect)] \<rparr>)
            moduleMap)"

text \<open>The loop over the test runs: six sums, at the level of the project only.\<close>

fun sumRuns ::
  "test_run list \<Rightarrow> nat \<times> nat \<times> nat \<times> nat \<times> nat \<times> nat \<Rightarrow> nat \<times> nat \<times> nat \<times> nat \<times> nat \<times> nat" where
  "sumRuns [] acc = acc"
| "sumRuns (run # runs) (totalTests, totalPassed, totalFailed, totalSkipped, totalAutomated, totalManual) =
     sumRuns runs
       (totalTests + tr_totalTests run, totalPassed + tr_passedTests run,
        totalFailed + tr_failedTests run, totalSkipped + tr_notApplicableTests run,
        (if tr_isAutomated run then totalAutomated + tr_totalTests run else totalAutomated),
        (if tr_isAutomated run then totalManual else totalManual + tr_totalTests run))"

text \<open>\<^verbatim>\<open>({...module, passRate: ...})\<close> on every value of the map.\<close>

definition withPassRate :: "module_result \<Rightarrow> module_result" where
  "withPassRate module' =
     module'\<lparr> m_passRate :=
       (if m_executed module' > 0 then times100 (js_div (m_passed module') (m_executed module'))
        else Num 0) \<rparr>"

text \<open>
  \<open>getProjectData\<close>: the three fetches are awaited together, and the \<open>catch\<close> turns the
  failure of any of them into \<open>null\<close>.  The environment is not read.
\<close>

definition getProjectData :: "remote \<Rightarrow> string \<Rightarrow> string \<Rightarrow> project_data option" where
  "getProjectData api projectName environment =
     (case getTestRuns api projectName of
        Inl e \<Rightarrow> None
      | Inr testRuns \<Rightarrow>
     (case getAreaPaths api projectName of
        Inl e \<Rightarrow> None
      | Inr areaPaths \<Rightarrow>
     (case snd (getDefects api projectName None) of
        Inl e \<Rightarrow> None
      | Inr defects \<Rightarrow>
          (case sumRuns testRuns (0, 0, 0, 0, 0, 0) of
             (totalTests, totalPassed, totalFailed, totalSkipped, totalAutomated, totalManual) \<Rightarrow>
               (let moduleMap = fold linkDefect defects (initModules areaPaths);
                    modules = map withPassRate (map snd moduleMap);
                    executed = totalTests;
                    passRate =
                      (if executed > 0 then times100 (js_div totalPassed executed) else Num 0)
                in Some
                  \<lparr> p_projectId = ''proj-'' @ projectName,
                    p_projectName = projectName,
                    p_modules = modules,
                    p_totalTests = totalTests,
                    p_executed = executed,
                    p_passed = totalPassed,
                    p_failed = totalFailed,
                    p_skipped = totalSkipped,
                    p_passRate = passRate,
                    p_automatedTests = totalAutomated,
                    p_manualTests = totalManual,
                    p_automated =
                      buildBreakdown totalAutomated totalPassed totalFailed totalSkipped,
                    p_manual = buildBreakdown totalManual 0 0 0,
                    p_lastRunTime = None,
                    p_runCount = None \<rparr>)))))"

section \<open>The orchestration in \<open>App\<close>\<close>

datatype data_source = Demo | Pipelines | Testplans

record project_config =
  pc_name :: string
  pc_enabled :: bool

record settings =
  s_azureDevOps :: config
  s_projects :: "project_config list"
  s_dataSource :: "data_source option"

text \<open>
  The synthetic data generator is a collaborator of the orchestration: what its five
  functions return during one refresh.  Trend, comparison and failure records are not
  inspected, so their types are parameters.
\<close>

record ('t, 'c, 'f) mock =
  mock_getTrendData :: "string \<Rightarrow> 't"
  mock_getProjectsData :: "string \<Rightarrow> date \<Rightarrow> project_data list"
  mock_getComparisonData :: "string \<Rightarrow> 'c"
  mock_getDefects :: "string \<Rightarrow> defect list"
  mock_getTestFailureDefects :: "string \<Rightarrow> date \<Rightarrow> 'f"

text \<open>The state of the component that the refresh writes.\<close>

record ('t, 'c, 'f) app_state =
  loading :: bool
  dataSourceError :: "string option"
  trends :: 't
  projects :: "project_data list"
  comparison :: 'c
  defects :: "defect list"
  testFailures :: 'f

text \<open>\<open>isConfigured\<close> of the settings context, and \<open>dataSource\<close> with its default.\<close>

definition isConfigured :: "settings \<Rightarrow> bool" where
  "isConfigured st =
     (cfg_organization (s_azureDevOps st) \<noteq> [] \<and> cfg_personalAccessToken (s_azureDevOps st) \<noteq> [])"

definition dataSource :: "settings \<Rightarrow> data_source" where
  "dataSource st = (case s_dataSource st of None \<Rightarrow> Demo | Some d \<Rightarrow> d)"

text \<open>
  The message of the configuration error; the arrow of the source text is written as its
  three bytes.
\<close>

definition notConfiguredMessage :: string where
  "notConfiguredMessage =
     ''Azure DevOps not configured. Go to Settings '' @ [CHR 0xE2, CHR 0x86, CHR 0x92]
     @ '' Azure DevOps to set up connection.''"

text \<open>
  The names of the projects to fetch: the enabled ones of the settings, or, when there
  is none, every project of the organisation (\<open>r_projects\<close> is the outcome of that
  request).
\<close>

definition projectNames :: "js_error + string list \<Rightarrow> settings \<Rightarrow> js_error + string list" where
  "projectNames r_projects st =
     (let enabledProjects = filter pc_enabled (s_projects st) in
      if length enabledProjects > 0 then Inr (map pc_name enabledProjects)
      else r_projects)"

text \<open>The flat list of defects: a project whose \<open>getDefects\<close> throws is skipped.\<close>

definition fetchDefects :: "service \<Rightarrow> remote \<Rightarrow> string \<Rightarrow> string list \<Rightarrow> defect list" where
  "fetchDefects svc api environment names =
     concat (map (\<lambda>projName.
       case snd (getDefects api projName None) of
         Inl e \<Rightarrow> []
       | Inr azDefects \<Rightarrow> transformDefects svc azDefects environment) names)"

definition fetchFromPipelines ::
  "nat option \<Rightarrow> nat option \<Rightarrow> remote \<Rightarrow> js_error + string list \<Rightarrow> ('t, 'c, 'f) mock \<Rightarrow>
   settings \<Rightarrow> string \<Rightarrow> date \<Rightarrow> ('t, 'c, 'f) app_state \<Rightarrow> ('t, 'c, 'f) app_state" where
  "fetchFromPipelines automated manual api r_projects gen st selectedEnvironment selectedDate s =
     (case createAzureDevOpsService (s_azureDevOps st) of
        None \<Rightarrow> s\<lparr> dataSourceError := Some notConfiguredMessage \<rparr>
      | Some svc \<Rightarrow>
          (case projectNames r_projects st of
             Inl err \<Rightarrow>
               s\<lparr> dataSourceError := Some (''Failed to fetch pipeline data: '' @ message err) \<rparr>
           | Inr names \<Rightarrow>
               s\<lparr> dataSourceError := None,
                  projects :=
                    List.map_filter
                      (\<lambda>projName. getProjectDataFromPipelines automated manual api projName
                         selectedEnvironment selectedDate) names,
                  defects := fetchDefects svc api selectedEnvironment names,
                  trends := mock_getTrendData gen selectedEnvironment,
                  comparison := mock_getComparisonData gen selectedEnvironment,
                  testFailures :=
                    mock_getTestFailureDefects gen selectedEnvironment selectedDate \<rparr>))"

definition fetchFromTestPlans ::
  "remote \<Rightarrow> js_error + string list \<Rightarrow> ('t, 'c, 'f) mock \<Rightarrow>
   settings \<Rightarrow> string \<Rightarrow> date \<Rightarrow> ('t, 'c, 'f) app_state \<Rightarrow> ('t, 'c, 'f) app_state" where
  "fetchFromTestPlans api r_projects gen st selectedEnvironment selectedDate s =
     (case createAzureDevOpsService (s_azureDevOps st) of
        None \<Rightarrow> s\<lparr> dataSourceError := Some notConfiguredMessage \<rparr>
      | Some svc \<Rightarrow>
          (case projectNames r_projects st of
             Inl err \<Rightarrow>
               s\<lparr> dataSourceError := Some (''Failed to fetch Test Plans data: '' @ message err) \<rparr>
           | Inr names \<Rightarrow>
               s\<lparr> dataSourceError := None,
                  projects :=
                    List.map_filter
                      (\<lambda>projName. getProjectData api projName selectedEnvironment) names,
                  defects := fetchDefects svc api selectedEnvironment names,
                  trends := mock_getTrendData gen selectedEnvironment,
                  comparison := mock_getComparisonData gen selectedEnvironment,
                  testFailures :=
                    mock_getTestFailureDefects gen selectedEnvironment selectedDate \<rparr>))"

definition fetchFromDemo ::
  "('t, 'c, 'f) mock \<Rightarrow> string \<Rightarrow> date \<Rightarrow> ('t, 'c, 'f) app_state \<Rightarrow> ('t, 'c, 'f) app_state" where
  "fetchFromDemo gen selectedEnvironment selectedDate s =
     s\<lparr> dataSourceError := None,
        trends := mock_getTrendData gen selectedEnvironment,
        projects := mock_getProjectsData gen selectedEnvironment selectedDate,
        comparison := mock_getComparisonData gen selectedEnvironment,
        defects := mock_getDefects gen selectedEnvironment,
        testFailures := mock_getTestFailureDefects gen selectedEnvironment selectedDate \<rparr>"

text \<open>
  \<open>refreshData\<close>.  Each branch catches what its fetches throw, so the outer \<open>catch\<close>
  has nothing left to handle and the refresh always ends with \<open>setLoading(false)\<close>.
\<close>

definition refreshData ::
  "nat option \<Rightarrow> nat option \<Rightarrow> remote \<Rightarrow> js_error + string list \<Rightarrow> ('t, 'c, 'f) mock \<Rightarrow>
   settings \<Rightarrow> string \<Rightarrow> date \<Rightarrow> ('t, 'c, 'f) app_state \<Rightarrow> ('t, 'c, 'f) app_state" where
  "refreshData automated manual api r_projects gen st selectedEnvironment selectedDate s =
     (let s1 = s\<lparr> loading := True \<rparr>;
          s2 =
            (if dataSource st = Pipelines \<and> isConfigured st
             then fetchFromPipelines automated manual api r_projects gen st
                    selectedEnvironment selectedDate s1
             else if dataSource st = Testplans \<and> isConfigured st
             then fetchFromTestPlans api r_projects gen st selectedEnvironment selectedDate s1
             else fetchFromDemo gen selectedEnvironment selectedDate s1)
      in s2\<lparr> loading := False \<rparr>)"

section \<open>Predicates and inputs used in the statements\<close>

text \<open>
  A fetch for a build throws when the listing of its test runs throws, or when the
  listing of the results of one of its runs does.  A build has test runs when the
  listing succeeds with a non-empty list.
\<close>

definition resultsFetchFails :: "remote \<Rightarrow> string \<Rightarrow> test_run \<Rightarrow> bool" where
  "resultsFetchFails api project run = isl (r_testResults api project (tr_id run))"

definition buildFetchFails :: "remote \<Rightarrow> string \<Rightarrow> build \<Rightarrow> bool" where
  "buildFetchFails api project b =
     (case r_testRunsForBuild api project (bld_id b) of
        Inl e \<Rightarrow> True
      | Inr testRuns \<Rightarrow> list_ex (resultsFetchFails api project) testRuns)"

definition hasTestRuns :: "remote \<Rightarrow> string \<Rightarrow> build \<Rightarrow> bool" where
  "hasTestRuns api project b =
     (case r_testRunsForBuild api project (bld_id b) of
        Inl e \<Rightarrow> False
      | Inr testRuns \<Rightarrow> testRuns \<noteq> [])"

text \<open>
  The ids, as strings, of the defects of a list whose area path ends in a given name, in
  the order of the list.
\<close>

definition linkedIds :: "string \<Rightarrow> work_item list \<Rightarrow> string list" where
  "linkedIds name ds =
     map (\<lambda>d. string_of_nat (wi_id d)) (filter (\<lambda>d. areaTail d = name) ds)"

text \<open>Concrete records, for the examples.\<close>

definition exampleRun :: "nat \<Rightarrow> nat \<Rightarrow> nat \<Rightarrow> nat \<Rightarrow> nat \<Rightarrow> test_run" where
  "exampleRun i n p f s =
     \<lparr> tr_id = i, tr_name = ''run'', tr_isAutomated = True, tr_totalTests = n,
       tr_passedTests = p, tr_failedTests = f, tr_notApplicableTests = s \<rparr>"

definition exampleResult :: "nat \<Rightarrow> outcome \<Rightarrow> string option \<Rightarrow> test_result" where
  "exampleResult i out name =
     \<lparr> res_id = i, res_testCaseTitle = ''case'', res_outcome = out,
       res_automatedTestName = name \<rparr>"

definition exampleBuild :: "nat \<Rightarrow> nat \<Rightarrow> string \<Rightarrow> build" where
  "exampleBuild i d name =
     \<lparr> bld_id = i, bld_buildNumber = ''20240501.1'', bld_startTime = ''2024-05-01T08:00:00Z'',
       bld_finishTime = ''2024-05-01T08:30:00Z'',
       bld_definition = \<lparr> def_name = name, def_id = d \<rparr> \<rparr>"

definition exampleItem :: "nat \<Rightarrow> string \<Rightarrow> string option \<Rightarrow> work_item" where
  "exampleItem i area sev =
     \<lparr> wi_id = i, wi_Title = ''Checkout fails'', wi_State = ''Active'', wi_AssignedTo = None,
       wi_Severity = sev, wi_CreatedDate = ''2024-04-30T10:00:00Z'', wi_AreaPath = area \<rparr>"

text \<open>A remote on which every request fails.\<close>

definition offline :: remote where
  "offline =
     \<lparr> r_buildsByDate = (\<lambda>project date. Inl (NetworkError ''Failed to fetch'')),
       r_testRunsForBuild = (\<lambda>project buildId. Inl (NetworkError ''Failed to fetch'')),
       r_testResults = (\<lambda>project runId. Inl (NetworkError ''Failed to fetch'')),
       r_testRuns = (\<lambda>project. Inl (NetworkError ''Failed to fetch'')),
       r_areas = (\<lambda>project. Inl (NetworkError ''Failed to fetch'')),
       r_wiql = (\<lambda>project query. Inl (NetworkError ''Failed to fetch'')),
       r_workItems = (\<lambda>project ids. Inl (NetworkError ''Failed to fetch'')) \<rparr>"

text \<open>
  A day with three builds: builds 1 and 3 ran the pipeline definition 10, build 2 the
  definition 20; the listing of the test runs of build 2 answers 500.  Every other build
  has one run of two tests, one automated and passed, one manual and failed.
\<close>

definition threeBuilds :: "build list" where
  "threeBuilds = [exampleBuild 1 10 ''CI'', exampleBuild 2 20 ''Nightly'', exampleBuild 3 10 ''CI'']"

definition pipelineDay :: remote where
  "pipelineDay =
     offline
       \<lparr> r_buildsByDate := (\<lambda>project date. Inr threeBuilds),
         r_testRunsForBuild := (\<lambda>project buildId.
            if buildId = 2 then Inl (HttpError 500 ''Internal Server Error'')
            else Inr [exampleRun (10 * buildId) 2 1 1 0]),
         r_testResults := (\<lambda>project runId.
            Inr [exampleResult 1 Passed (Some ''Suite.test_login''),
                 exampleResult 2 Failed None]) \<rparr>"

text \<open>A day with one build that published no test run.\<close>

definition quietDay :: remote where
  "quietDay =
     offline
       \<lparr> r_buildsByDate := (\<lambda>project date. Inr [exampleBuild 1 10 ''CI'']),
         r_testRunsForBuild := (\<lambda>project buildId. Inr []) \<rparr>"

text \<open>
  A project with the areas Payments and Orders, one test run of two tests (one passed,
  one not applicable), and two bugs: 7 under \<^verbatim>\<open>ProjectX\Payments\<close>, 8 under
  \<^verbatim>\<open>ProjectX\Search\<close>.  No build ran.
\<close>

definition testPlanProject :: remote where
  "testPlanProject =
     offline
       \<lparr> r_buildsByDate := (\<lambda>project date. Inr []),
         r_testRuns := (\<lambda>project. Inr [exampleRun 1 2 1 0 1]),
         r_areas := (\<lambda>project. Inr (Some [''Payments'', ''Orders''])),
         r_wiql := (\<lambda>project query. Inr (Some [7, 8])),
         r_workItems := (\<lambda>project ids.
            Inr [exampleItem 7 (''ProjectX'' @ [backslash] @ ''Payments'') None,
                 exampleItem 8 (''ProjectX'' @ [backslash] @ ''Search'') None]) \<rparr>"

text \<open>The same project before any test run.\<close>

definition idleProject :: remote where
  "idleProject = testPlanProject \<lparr> r_testRuns := (\<lambda>project. Inr []) \<rparr>"

text \<open>A project whose query for bugs matches the 350 work items 1 to 350.\<close>

definition manyBugs :: remote where
  "manyBugs =
     offline
       \<lparr> r_wiql := (\<lambda>project query. Inr (Some [1..<351])),
         r_workItems := (\<lambda>project ids. Inr (map (\<lambda>i. exampleItem i ''ProjectX'' None) ids)) \<rparr>"

text \<open>A configured connection and its service.\<close>

definition contoso :: config where
  "contoso =
     \<lparr> cfg_organization = ''contoso'', cfg_personalAccessToken = ''secret'', cfg_baseUrl = [] \<rparr>"

text \<open>Settings without organisation and token, in the mode \<open>pipelines\<close>.\<close>

definition unconfigured :: settings where
  "unconfigured =
     \<lparr> s_azureDevOps = \<lparr> cfg_organization = [], cfg_personalAccessToken = [], cfg_baseUrl = [] \<rparr>,
       s_projects = [],
       s_dataSource = Some Pipelines \<rparr>"

definition demoProject :: project_data where
  "demoProject =
     \<lparr> p_projectId = ''PRJ-001'', p_projectName = ''E-Commerce Platform'', p_modules = [],
       p_totalTests = 450, p_executed = 444, p_passed = 395, p_failed = 42, p_skipped = 7,
       p_passRate = Num 89, p_automatedTests = 0, p_manualTests = 0,
       p_automated = buildBreakdown 0 0 0 0, p_manual = buildBreakdown 0 0 0 0,
       p_lastRunTime = None, p_runCount = None \<rparr>"

definition demoData :: "(unit, unit, unit) mock" where
  "demoData =
     \<lparr> mock_getTrendData = (\<lambda>env. ()),
       mock_getProjectsData = (\<lambda>env date. [demoProject]),
       mock_getComparisonData = (\<lambda>env. ()),
       mock_getDefects = (\<lambda>env. []),
       mock_getTestFailureDefects = (\<lambda>env date. ()) \<rparr>"

definition initialState :: "(unit, unit, unit) app_state" where
  "initialState =
     \<lparr> loading = True, dataSourceError = None, trends = (), projects = [],
       comparison = (), defects = [], testFailures = () \<rparr>"

section \<open>Doubles and pass rates\<close>

text \<open>
  \<open>normalise\<close> is correct, and it can be evaluated by giving the number of doublings or
  halvings.  Rounding to a double changes a positive number by at most its \<open>2 ^ 53\<close>-th
  part.
\<close>

lemma least_significand_ge_1: "1 \<le> least_significand"
  by (simp add: least_significand_def)

lemma normalise_in_range:
  assumes "least_significand \<le> x" and "x < 2 * least_significand"
  shows "normalise x = (x, 1)"
proof -
  from assms(1) least_significand_ge_1 have "0 < x" by linarith
  with assms show ?thesis by (subst normalise.simps) simp
qed

lemma normalise_up:
  assumes "0 < x" and "least_significand \<le> x * 2 ^ n" and "x * 2 ^ n < 2 * least_significand"
  shows "normalise x = (x * 2 ^ n, 1 / 2 ^ n)"
  using assms
proof (induction n arbitrary: x)
  case 0
  then show ?case by (simp add: normalise_in_range)
next
  case (Suc n)
  have p: "(1::rat) \<le> 2 ^ n" by simp
  from Suc.prems(3) have "x * 2 ^ n < least_significand" by simp
  moreover have "x \<le> x * 2 ^ n" using Suc.prems(1) p by simp
  ultimately have small: "x < least_significand" by linarith
  have "normalise (2 * x) = (2 * x * 2 ^ n, 1 / 2 ^ n)"
    using Suc.prems by (intro Suc.IH) (simp_all add: mult.assoc mult.left_commute)
  with small Suc.prems(1) show ?case
    by (subst normalise.simps) (simp add: mult.assoc mult.left_commute)
qed

lemma normalise_down:
  assumes "least_significand \<le> x / 2 ^ n" and "x / 2 ^ n < 2 * least_significand"
  shows "normalise x = (x / 2 ^ n, 2 ^ n)"
  using assms
proof (induction n arbitrary: x)
  case 0
  then show ?case by (simp add: normalise_in_range)
next
  case (Suc n)
  have p: "(1::rat) \<le> 2 ^ n" by simp
  have q: "x / 2 ^ Suc n = (x / 2) / 2 ^ n" by simp
  from Suc.prems(1) have a: "least_significand \<le> (x / 2) / 2 ^ n" by (simp only: q)
  from least_significand_ge_1 a have h: "0 < (x / 2) / 2 ^ n" by linarith
  then have x2: "0 < x / 2" by (simp add: zero_less_divide_iff)
  have "(x / 2) / 2 ^ n \<le> x / 2" using x2 p by (simp add: field_simps)
  with a have big: "2 * least_significand \<le> x" by linarith
  have "normalise (x / 2) = ((x / 2) / 2 ^ n, 2 ^ n)"
    using Suc.prems by (intro Suc.IH) (simp_all only: q)
  with big least_significand_ge_1 show ?case
    by (subst normalise.simps) simp
qed

lemma normalise_correct:
  "0 < x \<Longrightarrow> normalise x = (m, s) \<Longrightarrow>
     x = m * s \<and> least_significand \<le> m \<and> m < 2 * least_significand \<and> 0 < s"
proof (induction x arbitrary: m s rule: normalise.induct)
  case (1 x)
  show ?case
  proof (cases "x < least_significand")
    case True
    obtain m' s' where n: "normalise (2 * x) = (m', s')" by (cases "normalise (2 * x)")
    with "1.prems" True have ms: "m = m'" "s = s' / 2"
      by (subst (asm) normalise.simps, simp)+
    have "2 * x = m' * s' \<and> least_significand \<le> m' \<and> m' < 2 * least_significand \<and> 0 < s'"
      using "1.IH"(1) [of m' s'] "1.prems"(1) True n by simp
    then show ?thesis by (simp add: ms)
  next
    case False
    show ?thesis
    proof (cases "2 * least_significand \<le> x")
      case True
      obtain m' s' where n: "normalise (x / 2) = (m', s')" by (cases "normalise (x / 2)")
      with "1.prems" False True have ms: "m = m'" "s = s' * 2"
        by (subst (asm) normalise.simps, simp)+
      have "x / 2 = m' * s' \<and> least_significand \<le> m' \<and> m' < 2 * least_significand \<and> 0 < s'"
        using "1.IH"(2) [of m' s'] "1.prems"(1) False True n by simp
      then show ?thesis by (auto simp: ms)
    next
      case b: False
      with False "1.prems" have "m = x" "s = 1"
        by (subst (asm) normalise.simps, simp)+
      with False b show ?thesis by simp
    qed
  qed
qed

lemma round_even_error: "\<bar>rat_of_int (round_even m) - m\<bar> \<le> 1 / 2"
proof -
  have "rat_of_int \<lfloor>m\<rfloor> \<le> m" "m < rat_of_int \<lfloor>m\<rfloor> + 1" by linarith+
  then show ?thesis
    by (auto simp: round_even_def Let_def)
qed

lemma double_error:
  assumes "0 < x"
  shows "\<bar>double x - x\<bar> \<le> x / 2 ^ 53"
proof -
  obtain m s where n: "normalise x = (m, s)" by (cases "normalise x")
  from normalise_correct [OF assms n]
  have x: "x = m * s" and lo: "least_significand \<le> m" and s: "0 < s" by simp_all
  from assms n have d: "double x = rat_of_int (round_even m) * s"
    by (simp add: double_def)
  have "rat_of_int (round_even m) * s - x = (rat_of_int (round_even m) - m) * s"
    using x by (simp add: algebra_simps)
  then have "\<bar>double x - x\<bar> = \<bar>rat_of_int (round_even m) - m\<bar> * s"
    using s unfolding d by (simp add: abs_mult)
  also have "\<dots> \<le> (1 / 2) * s"
    using round_even_error [of m] s by (intro mult_right_mono) simp_all
  also have "\<dots> \<le> (1 / 2) * (x / 2 ^ 52)"
  proof -
    have "2 ^ 52 * s \<le> m * s" using lo s by (simp add: least_significand_def)
    then have "s \<le> x / 2 ^ 52" by (simp add: x field_simps)
    then show ?thesis by simp
  qed
  also have "\<dots> = x / 2 ^ 53" by simp
  finally show ?thesis .
qed

lemma double_0: "double 0 = 0"
  by (simp add: double_def)

lemma round_even_below:
  assumes "rat_of_int k \<le> m" and "m - rat_of_int k < 1 / 2"
  shows "round_even m = k"
proof -
  from assms have "\<lfloor>m\<rfloor> = k" by (intro floor_unique) linarith+
  with assms show ?thesis by (simp add: round_even_def Let_def)
qed

lemma round_even_above:
  assumes "m < rat_of_int k + 1" and "1 / 2 < m - rat_of_int k"
  shows "round_even m = k + 1"
proof -
  from assms have "\<lfloor>m\<rfloor> = k" by (intro floor_unique) linarith+
  with assms show ?thesis by (simp add: round_even_def Let_def)
qed

lemma double_below:
  assumes "0 < x" and "least_significand \<le> x * 2 ^ n" and "x * 2 ^ n < 2 * least_significand"
    and "rat_of_int k \<le> x * 2 ^ n" and "x * 2 ^ n - rat_of_int k < 1 / 2"
  shows "double x = rat_of_int k / 2 ^ n"
  using assms(1) normalise_up [OF assms(1-3)] round_even_below [OF assms(4,5)]
  by (simp add: double_def)

lemma double_above:
  assumes "0 < x" and "least_significand \<le> x * 2 ^ n" and "x * 2 ^ n < 2 * least_significand"
    and "x * 2 ^ n < rat_of_int k + 1" and "1 / 2 < x * 2 ^ n - rat_of_int k"
  shows "double x = rat_of_int (k + 1) / 2 ^ n"
  using assms(1) normalise_up [OF assms(1-3)] round_even_above [OF assms(4,5)]
  by (simp add: double_def)

lemma double_four_fifths: "double (4 / 5) = 3602879701896397 / 4503599627370496"
  using double_above [of "4 / 5" 53 7205759403792793]
  by (simp add: least_significand_def)

lemma double_80: "double (3602879701896397 / 4503599627370496 * 100) = 80"
  using double_below [of "3602879701896397 / 4503599627370496 * 100" 46 5629499534213120]
  by (simp add: least_significand_def)

lemma double_pos:
  assumes "0 < x"
  shows "0 < double x"
proof -
  have "x / 2 ^ 53 < x" using assms by (simp add: field_simps)
  with double_error [OF assms] show ?thesis by linarith
qed

lemma percent_error:
  assumes "0 < b"
  shows "\<exists>y. times100 (js_div a b) = Num y \<and> 0 \<le> y \<and>
           \<bar>y - rat_of_nat a / rat_of_nat b * 100\<bar> \<le> rat_of_nat a / rat_of_nat b * 100 / 2 ^ 51"
proof (cases "a = 0")
  case True
  with assms show ?thesis by (simp add: js_div_def double_0)
next
  case False
  define q where "q = rat_of_nat a / rat_of_nat b"
  define q' where "q' = double q"
  define y where "y = double (q' * 100)"
  have q: "0 < q" using False assms by (simp add: q_def)
  have e1: "\<bar>q' - q\<bar> \<le> q / 2 ^ 53" unfolding q'_def by (rule double_error [OF q])
  have q': "0 < q'" unfolding q'_def by (rule double_pos [OF q])
  then have "0 < q' * 100" by simp
  then have e2: "\<bar>y - q' * 100\<bar> \<le> q' * 100 / 2 ^ 53" and y: "0 < y"
    unfolding y_def by (rule double_error, rule double_pos)
  have "times100 (js_div a b) = Num y"
    using assms by (simp add: js_div_def y_def q'_def q_def)
  moreover have "\<bar>y - q * 100\<bar> \<le> q * 100 / 2 ^ 51"
  proof -
    from e1 have "q' - q \<le> q / 2 ^ 53" "q - q' \<le> q / 2 ^ 53"
      by (simp_all only: abs_le_iff minus_diff_eq)
    moreover from e2 have "y - q' * 100 \<le> q' * 100 / 2 ^ 53" "q' * 100 - y \<le> q' * 100 / 2 ^ 53"
      by (simp_all only: abs_le_iff minus_diff_eq)
    ultimately have "y - q * 100 \<le> q * 100 / 2 ^ 51 \<and> q * 100 - y \<le> q * 100 / 2 ^ 51"
      using q by simp
    then show ?thesis by (simp only: abs_le_iff minus_diff_eq)
  qed
  ultimately show ?thesis using y by (auto simp: q_def)
qed

lemma percent_finite:
  assumes "0 < b"
  obtains y where "times100 (js_div a b) = Num y" and "0 \<le> y"
    and "\<bar>y - rat_of_nat a / rat_of_nat b * 100\<bar> \<le> rat_of_nat a / rat_of_nat b * 100 / 2 ^ 51"
  using percent_error [OF assms] by blast

lemma toFixed1_error:
  assumes "0 \<le> y"
  shows "\<exists>k. toFixed1 (Num y) = Num (double (rat_of_int k / 10)) \<and> \<bar>rat_of_int k / 10 - y\<bar> \<le> 1 / 20"
proof -
  define k where "k = \<lfloor>y * 10 + 1 / 2\<rfloor>"
  have "rat_of_int k \<le> y * 10 + 1 / 2" "y * 10 + 1 / 2 < rat_of_int k + 1"
    unfolding k_def by linarith+
  then have "rat_of_int k / 10 - y \<le> 1 / 20 \<and> y - rat_of_int k / 10 \<le> 1 / 20" by simp
  then have b: "\<bar>rat_of_int k / 10 - y\<bar> \<le> 1 / 20" by (simp only: abs_le_iff minus_diff_eq)
  have "toFixed1 (Num y) = Num (double (rat_of_int k / 10))"
  proof (cases "y = 0")
    case True
    have "\<lfloor>(1::rat) / 2\<rfloor> = 0" by (rule floor_unique) simp_all
    with True have "k = 0" by (simp add: k_def)
    with True show ?thesis by simp
  next
    case False
    with assms have "0 < y" by simp
    then show ?thesis by (simp add: k_def)
  qed
  with b show ?thesis by blast
qed

lemma buildBreakdown_zero: "b_passRate (buildBreakdown total' 0 0 skipped) = Num 0"
  by (simp add: buildBreakdown_def)

lemma buildBreakdown_rounded:
  assumes "0 < passed + failed"
  shows "\<exists>k. b_passRate (buildBreakdown total' passed failed skipped) = Num (double (rat_of_int k / 10))
           \<and> \<bar>rat_of_int k / 10 - rat_of_nat passed / rat_of_nat (passed + failed) * 100\<bar>
               \<le> 1 / 20 + 1 / 2 ^ 44"
proof -
  define E where "E = rat_of_nat passed / rat_of_nat (passed + failed) * 100"
  obtain y where y: "times100 (js_div passed (passed + failed)) = Num y" "0 \<le> y"
    and ey: "\<bar>y - E\<bar> \<le> E / 2 ^ 51"
    unfolding E_def by (rule percent_finite [OF assms])
  from toFixed1_error [OF y(2)] obtain k
    where k: "toFixed1 (Num y) = Num (double (rat_of_int k / 10))"
      and ek: "\<bar>rat_of_int k / 10 - y\<bar> \<le> 1 / 20"
    by blast
  define r where "r = rat_of_nat passed / rat_of_nat (passed + failed)"
  have pos: "0 < rat_of_nat (passed + failed)" using assms by (simp only: of_nat_0_less_iff)
  have "passed \<le> passed + failed" by simp
  then have le: "rat_of_nat passed \<le> rat_of_nat (passed + failed)" by (simp only: of_nat_le_iff)
  have "r \<le> 1" unfolding r_def using le by (simp only: divide_le_eq_1_pos [OF pos])
  moreover have "E = r * 100" by (simp only: E_def r_def)
  ultimately have "E \<le> 100" by simp
  then have "E / 2 ^ 51 \<le> 1 / 2 ^ 44" by simp
  with ey have "\<bar>y - E\<bar> \<le> 1 / 2 ^ 44" by linarith
  with ek have "\<bar>rat_of_int k / 10 - E\<bar> \<le> 1 / 20 + 1 / 2 ^ 44" by linarith
  moreover have "b_passRate (buildBreakdown total' passed failed skipped) = Num (double (rat_of_int k / 10))"
    using assms y(1) k by (simp add: buildBreakdown_def)
  ultimately show ?thesis unfolding E_def by blast
qed

lemma toFixed1_pos:
  assumes "0 < y" and "rat_of_int k \<le> y * 10 + 1 / 2" and "y * 10 + 1 / 2 < rat_of_int k + 1"
  shows "toFixed1 (Num y) = Num (double (rat_of_int k / 10))"
proof -
  from assms(2,3) have "\<lfloor>y * 10 + 1 / 2\<rfloor> = k" by (intro floor_unique)
  with assms(1) show ?thesis by simp
qed

lemma double_80_exact: "double 80 = 80"
  using double_below [of 80 46 5629499534213120]
  by (simp add: least_significand_def)

lemma buildBreakdown_80_20: "b_passRate (buildBreakdown 100 80 20 0) = Num 80"
proof -
  have "js_div 80 (80 + 20) = Num (3602879701896397 / 4503599627370496)"
    by (simp add: js_div_def double_four_fifths)
  then have "times100 (js_div 80 (80 + 20)) = Num 80"
    by (simp only: times100.simps double_80)
  moreover have "toFixed1 (Num 80) = Num (double (rat_of_int 800 / 10))"
    by (rule toFixed1_pos) simp_all
  ultimately have "toFixed1 (times100 (js_div 80 (80 + 20))) = Num 80"
    by (simp add: double_80_exact)
  then show ?thesis by (simp add: buildBreakdown_def)
qed

lemma double_41_80: "double (41 / 80) = 2308094809027379 / 4503599627370496"
  using double_below [of "41 / 80" 53 4616189618054758]
  by (simp add: least_significand_def)

lemma double_41_80_times_100:
  "double (2308094809027379 / 4503599627370496 * 100) = 7212796278210559 / 140737488355328"
  using double_below [of "2308094809027379 / 4503599627370496 * 100" 47 7212796278210559]
  by (simp add: least_significand_def)

lemma buildBreakdown_41_39:
  "b_passRate (buildBreakdown 80 41 39 0) = Num (double (512 / 10))"
proof -
  have "js_div 41 (41 + 39) = Num (2308094809027379 / 4503599627370496)"
    by (simp add: js_div_def double_41_80)
  then have "times100 (js_div 41 (41 + 39)) = Num (7212796278210559 / 140737488355328)"
    by (simp only: times100.simps double_41_80_times_100)
  moreover have "toFixed1 (Num (7212796278210559 / 140737488355328))
      = Num (double (rat_of_int 512 / 10))"
    by (rule toFixed1_pos) simp_all
  ultimately have "toFixed1 (times100 (js_div 41 (41 + 39))) = Num (double (512 / 10))"
    by simp
  then show ?thesis by (simp add: buildBreakdown_def)
qed

lemma double_23_80: "double (23 / 80) = 2589569785738035 / 9007199254740992"
  using double_below [of "23 / 80" 54 5179139571476070]
  by (simp add: least_significand_def)

lemma double_23_80_times_100:
  "double (2589569785738035 / 9007199254740992 * 100) = 8092405580431359 / 281474976710656"
  using double_below [of "2589569785738035 / 9007199254740992 * 100" 48 8092405580431359]
  by (simp add: least_significand_def)

text \<open>
  Two exact ties: \<open>41 / 80 * 100\<close> is 51.25 and \<open>23 / 80 * 100\<close> is 28.75, but the
  doubles of the two products lie below them, and the rates are 51.2 and 28.7.
\<close>

lemma buildBreakdown_23_57:
  "b_passRate (buildBreakdown 80 23 57 0) = Num (double (287 / 10))"
proof -
  have "js_div 23 (23 + 57) = Num (2589569785738035 / 9007199254740992)"
    by (simp add: js_div_def double_23_80)
  then have "times100 (js_div 23 (23 + 57)) = Num (8092405580431359 / 281474976710656)"
    by (simp only: times100.simps double_23_80_times_100)
  moreover have "toFixed1 (Num (8092405580431359 / 281474976710656))
      = Num (double (rat_of_int 287 / 10))"
    by (rule toFixed1_pos) simp_all
  ultimately have "toFixed1 (times100 (js_div 23 (23 + 57))) = Num (double (287 / 10))"
    by simp
  then show ?thesis by (simp add: buildBreakdown_def)
qed

lemma double_half: "double (1 / 2) = 1 / 2"
  using double_below [of "1 / 2" 53 4503599627370496]
  by (simp add: least_significand_def)

lemma double_50: "double (1 / 2 * 100) = 50"
  using double_below [of "1 / 2 * 100" 47 7036874417766400]
  by (simp add: least_significand_def)

lemma double_1: "double 1 = 1"
  using double_below [of 1 52 4503599627370496]
  by (simp add: least_significand_def)

lemma double_100: "double (1 * 100) = 100"
  using double_below [of "1 * 100" 46 7036874417766400]
  by (simp add: least_significand_def)

lemma percent_1_2:
  assumes "a = 1" and "b = 2"
  shows "times100 (js_div a b) = Num 50"
proof -
  have "js_div a b = Num (1 / 2)" by (simp add: assms js_div_def double_half)
  then show ?thesis by (simp only: times100.simps double_50)
qed

lemma percent_1_1:
  assumes "a = 1" and "b = 1"
  shows "times100 (js_div a b) = Num 100"
proof -
  have "js_div a b = Num 1" by (simp add: assms js_div_def double_1)
  then show ?thesis by (simp only: times100.simps double_100)
qed

lemma percent_0: "0 < b \<Longrightarrow> times100 (js_div 0 b) = Num 0"
  by (simp add: js_div_def double_0)

section \<open>The loop over the builds\<close>

lemma collectRuns_isl:
  "isl (collectRuns g runs acc) = list_ex (\<lambda>run. isl (g (tr_id run))) runs"
proof (induction runs arbitrary: acc)
  case Nil
  show ?case by simp
next
  case (Cons run runs)
  obtain t p f s rs where acc: "acc = (t, p, f, s, rs)"
    by (cases acc) auto
  show ?case
  proof (cases "g (tr_id run)")
    case (Inl e)
    then show ?thesis by (simp add: acc)
  next
    case (Inr results)
    then show ?thesis using Cons.IH by (simp add: acc)
  qed
qed

lemma collectRuns_sums:
  "collectRuns g runs (t, p, f, s, rs) = Inr (t', p', f', s', rs') \<Longrightarrow>
     t' = t + sum_list (map tr_totalTests runs) \<and>
     p' = p + sum_list (map tr_passedTests runs) \<and>
     f' = f + sum_list (map tr_failedTests runs) \<and>
     s' = s + sum_list (map tr_notApplicableTests runs)"
proof (induction runs arbitrary: t p f s rs)
  case Nil
  then show ?case by simp
next
  case (Cons run runs)
  then show ?case
    by (cases "g (tr_id run)") (auto dest!: Cons.IH)
qed

lemma buildSummary_Some_iff:
  "(\<exists>s. buildSummary api project b = Inr (Some s)) \<longleftrightarrow>
     (\<not> buildFetchFails api project b \<and> hasTestRuns api project b)"
proof (cases "r_testRunsForBuild api project (bld_id b)")
  case (Inl e)
  then show ?thesis
    by (simp add: buildSummary_def buildFetchFails_def hasTestRuns_def)
next
  case (Inr testRuns)
  have "isl (collectRuns (r_testResults api project) testRuns (0, 0, 0, 0, []))
        = list_ex (resultsFetchFails api project) testRuns"
    unfolding collectRuns_isl resultsFetchFails_def ..
  then show ?thesis using Inr
    by (cases "collectRuns (r_testResults api project) testRuns (0, 0, 0, 0, [])")
       (auto simp: buildSummary_def buildFetchFails_def hasTestRuns_def)
qed

lemma buildSummary_buildId:
  "buildSummary api project b = Inr (Some s) \<Longrightarrow>
     pr_buildId s = bld_id b \<and> pr_definitionId s = def_id (bld_definition b)
     \<and> pr_pipelineName s = def_name (bld_definition b)"
  by (auto simp: buildSummary_def split: sum.splits if_splits)

lemma forBuilds_buildIds:
  "map pr_buildId (forBuilds api project builds acc) =
     map pr_buildId acc
     @ map bld_id (filter (\<lambda>b. \<not> buildFetchFails api project b \<and> hasTestRuns api project b) builds)"
proof (induction builds arbitrary: acc)
  case Nil
  show ?case by simp
next
  case (Cons b builds)
  show ?case
  proof (cases "buildSummary api project b")
    case (Inl e)
    with buildSummary_Some_iff [of api project b] Cons.IH show ?thesis by simp
  next
    case (Inr r)
    show ?thesis
    proof (cases r)
      case None
      with Inr buildSummary_Some_iff [of api project b] Cons.IH show ?thesis by simp
    next
      case (Some s)
      with Inr buildSummary_Some_iff [of api project b] buildSummary_buildId [of api project b s]
        Cons.IH [of "acc @ [s]"]
      show ?thesis by simp
    qed
  qed
qed

lemma forBuilds_empty:
  "list_all (\<lambda>b. \<not> hasTestRuns api project b) builds \<Longrightarrow> forBuilds api project builds acc = acc"
proof (induction builds arbitrary: acc)
  case Nil
  show ?case by simp
next
  case (Cons b builds)
  then have "\<not> hasTestRuns api project b" by simp
  with buildSummary_Some_iff [of api project b]
  have "\<not> (\<exists>s. buildSummary api project b = Inr (Some s))" by simp
  with Cons show ?case
    by (cases "buildSummary api project b") (auto split: option.splits)
qed

section \<open>The project of the pipelines\<close>

lemma mapE_Inr:
  "mapE f xs = Inr ys \<Longrightarrow> length ys = length xs \<and> (\<forall>y\<in>set ys. \<exists>x\<in>set xs. f x = Inr y)"
proof (induction xs arbitrary: ys)
  case Nil
  then show ?case by simp
next
  case (Cons x xs)
  then show ?case
    by (auto split: sum.splits)
qed

lemma pipelineModule_no_breakdown:
  "pipelineModule automated manual pr = Inr md \<Longrightarrow> m_automated md = None \<and> m_manual md = None"
  by (auto simp: pipelineModule_def split: option.splits)

lemma reduceBreakdown_None:
  "ms \<noteq> [] \<Longrightarrow> sel (hd ms) = None \<Longrightarrow> isl (reduceBreakdown sel counter ms s)"
  by (cases ms) simp_all

lemma pipelinesProject_throws:
  assumes "ms \<noteq> []" and "m_automated (hd ms) = None"
  shows "isl (pipelinesProject n prs ms)"
proof -
  from assms have "isl (reduceBreakdown m_automated b_passed ms 0)"
    by (cases ms) simp_all
  then show ?thesis
    by (cases "reduceBreakdown m_automated b_passed ms 0")
       (simp_all add: pipelinesProject_def bindE_def)
qed

lemma modules_throw:
  assumes "prs \<noteq> []"
  shows "isl (bindE (mapE (pipelineModule automated manual) prs) (pipelinesProject n prs))"
proof (cases "mapE (pipelineModule automated manual) prs")
  case (Inl e)
  then show ?thesis by (simp add: bindE_def)
next
  case (Inr ms)
  from mapE_Inr [OF Inr] assms have ne: "ms \<noteq> []" by auto
  then have "hd ms \<in> set ms" by simp
  with mapE_Inr [OF Inr] obtain pr where "pipelineModule automated manual pr = Inr (hd ms)"
    by blast
  then have "m_automated (hd ms) = None"
    by (simp add: pipelineModule_no_breakdown)
  with ne have "isl (pipelinesProject n prs ms)"
    by (rule pipelinesProject_throws)
  with Inr show ?thesis by (simp add: bindE_def)
qed

text \<open>
  Whatever the two free identifiers are bound to, the pipeline strategy returns the
  empty project when no build has left a summary, and \<open>null\<close> otherwise: the callback
  throws on an unbound identifier, and the sums over the breakdowns throw on the first
  module, which has none.
\<close>

lemma getProjectDataFromPipelines_cases:
  "getProjectDataFromPipelines automated manual api n env d =
     (if getTestResultsByPipelines api n d = Inr [] then Some (emptyProject n) else None)"
proof (cases "getTestResultsByPipelines api n d")
  case (Inl e)
  then show ?thesis by (simp add: getProjectDataFromPipelines_def)
next
  case (Inr prs)
  show ?thesis
  proof (cases "prs = []")
    case True
    with Inr show ?thesis by (simp add: getProjectDataFromPipelines_def)
  next
    case False
    from modules_throw [OF False, of automated manual n]
    obtain e where "bindE (mapE (pipelineModule automated manual) prs) (pipelinesProject n prs) = Inl e"
      by (cases "bindE (mapE (pipelineModule automated manual) prs) (pipelinesProject n prs)") auto
    with Inr False show ?thesis by (simp add: getProjectDataFromPipelines_def)
  qed
qed

section \<open>The module map of the test-plan strategy\<close>

lemma sumRuns_sums:
  "sumRuns runs (a, b, c, d, e, f) =
     (a + sum_list (map tr_totalTests runs), b + sum_list (map tr_passedTests runs),
      c + sum_list (map tr_failedTests runs), d + sum_list (map tr_notApplicableTests runs),
      e + sum_list (map tr_totalTests (filter tr_isAutomated runs)),
      f + sum_list (map tr_totalTests (filter (\<lambda>r. \<not> tr_isAutomated r) runs)))"
  by (induction runs arbitrary: a b c d e f) simp_all

lemma initModules_fold_map_of:
  "map_of (fold (\<lambda>areaPath moduleMap. AList.update areaPath (initialModule areaPath) moduleMap)
             areas m0) k =
     (if k \<in> set areas then Some (initialModule k) else map_of m0 k)"
  by (induction areas arbitrary: m0) (auto simp: update_conv')

lemma initModules_fold_distinct:
  "distinct (map fst m0) \<Longrightarrow>
   distinct (map fst (fold (\<lambda>areaPath moduleMap.
      AList.update areaPath (initialModule areaPath) moduleMap) areas m0))"
  by (induction areas arbitrary: m0) (auto simp: distinct_update)

lemma initModules_map_of:
  "map_of (initModules areas) k = (if k \<in> set areas then Some (initialModule k) else None)"
  by (simp add: initModules_def initModules_fold_map_of)

lemma initModules_distinct: "distinct (map fst (initModules areas))"
  by (simp add: initModules_def initModules_fold_distinct)

lemma initModules_keys_set: "set (map fst (initModules areas)) = set areas"
proof -
  have "k \<in> fst ` set (initModules areas) \<longleftrightarrow> k \<in> set areas" for k
    using initModules_map_of [of areas k] map_of_eq_None_iff [of "initModules areas" k]
    by (auto split: if_splits)
  then show ?thesis by auto
qed

lemma linkDefect_keys: "map fst (linkDefect d m) = map fst m"
proof (cases "map_of m (areaTail d)")
  case None
  then show ?thesis by (simp add: linkDefect_def)
next
  case (Some v)
  then have "areaTail d \<in> fst ` set m"
    by (metis map_of_eq_None_iff option.distinct(1))
  with Some show ?thesis by (simp add: linkDefect_def update_keys)
qed

lemma linkDefect_map_of:
  "map_of (linkDefect d m) k =
     map_option (\<lambda>v. v\<lparr> m_linkedDefects := m_linkedDefects v @ linkedIds k [d] \<rparr>) (map_of m k)"
  by (cases "map_of m k")
     (auto simp: linkDefect_def Let_def update_conv' linkedIds_def split: option.splits)

lemma fold_linkDefect_keys: "map fst (fold linkDefect ds m) = map fst m"
  by (induction ds arbitrary: m) (simp_all add: linkDefect_keys)

lemma fold_linkDefect_map_of:
  "map_of (fold linkDefect ds m) k =
     map_option (\<lambda>v. v\<lparr> m_linkedDefects := m_linkedDefects v @ linkedIds k ds \<rparr>) (map_of m k)"
proof (induction ds arbitrary: m)
  case Nil
  show ?case by (cases "map_of m k") (simp_all add: linkedIds_def)
next
  case (Cons d ds)
  show ?case
    by (cases "map_of m k") (simp_all add: Cons.IH linkDefect_map_of linkedIds_def)
qed

text \<open>What \<open>getProjectData\<close> returns when its three fetches succeed.\<close>

lemma getProjectData_Some:
  assumes "getTestRuns api n = Inr runs"
    and "getAreaPaths api n = Inr areas"
    and "snd (getDefects api n None) = Inr ds"
  shows "getProjectData api n env = Some
     \<lparr> p_projectId = ''proj-'' @ n,
       p_projectName = n,
       p_modules = map withPassRate (map snd (fold linkDefect ds (initModules areas))),
       p_totalTests = sum_list (map tr_totalTests runs),
       p_executed = sum_list (map tr_totalTests runs),
       p_passed = sum_list (map tr_passedTests runs),
       p_failed = sum_list (map tr_failedTests runs),
       p_skipped = sum_list (map tr_notApplicableTests runs),
       p_passRate =
         (if sum_list (map tr_totalTests runs) > 0
          then times100 (js_div (sum_list (map tr_passedTests runs))
                 (sum_list (map tr_totalTests runs)))
          else Num 0),
       p_automatedTests = sum_list (map tr_totalTests (filter tr_isAutomated runs)),
       p_manualTests = sum_list (map tr_totalTests (filter (\<lambda>r. \<not> tr_isAutomated r) runs)),
       p_automated =
         buildBreakdown (sum_list (map tr_totalTests (filter tr_isAutomated runs)))
           (sum_list (map tr_passedTests runs)) (sum_list (map tr_failedTests runs))
           (sum_list (map tr_notApplicableTests runs)),
       p_manual =
         buildBreakdown
           (sum_list (map tr_totalTests (filter (\<lambda>r. \<not> tr_isAutomated r) runs))) 0 0 0,
       p_lastRunTime = None,
       p_runCount = None \<rparr>"
  using assms by (simp add: getProjectData_def sumRuns_sums Let_def del: sum_list_eq_0_iff)

lemma getProjectData_fetched:
  assumes "getProjectData api n env = Some p"
  obtains runs areas ds where "getTestRuns api n = Inr runs" "getAreaPaths api n = Inr areas"
    "snd (getDefects api n None) = Inr ds"
  using assms by (auto simp: getProjectData_def split: sum.splits)

text \<open>Every module of the result: its name, its links and its counters.\<close>

lemma module_in_map:
  assumes "md \<in> set (map withPassRate (map snd (fold linkDefect ds (initModules areas))))"
  shows "m_moduleName md \<in> set areas \<and> m_linkedDefects md = linkedIds (m_moduleName md) ds
     \<and> m_totalTests md = 0 \<and> m_passed md = 0 \<and> m_failed md = 0 \<and> m_skipped md = 0
     \<and> m_executed md = 0 \<and> m_passRate md = Num 0"
proof -
  let ?mm = "fold linkDefect ds (initModules areas)"
  from assms obtain k v where kv: "(k, v) \<in> set ?mm" and md: "md = withPassRate v"
    by auto
  have "distinct (map fst ?mm)"
    by (simp add: fold_linkDefect_keys initModules_distinct)
  with kv have "map_of ?mm k = Some v" by simp
  then have "map_option (\<lambda>v. v\<lparr> m_linkedDefects := m_linkedDefects v @ linkedIds k ds \<rparr>)
       (map_of (initModules areas) k) = Some v"
    by (simp add: fold_linkDefect_map_of)
  then have k: "k \<in> set areas"
    and v: "v = (initialModule k)\<lparr> m_linkedDefects := linkedIds k ds \<rparr>"
    by (auto simp: initModules_map_of initialModule_def split: if_splits)
  show ?thesis
    by (simp add: md v k withPassRate_def initialModule_def)
qed

lemma module_names:
  "map m_moduleName (map withPassRate (map snd (fold linkDefect ds (initModules areas))))
     = map fst (initModules areas)"
proof -
  let ?mm = "fold linkDefect ds (initModules areas)"
  have "\<forall>(k, v)\<in>set ?mm. m_moduleName (withPassRate v) = k"
  proof clarify
    fix k v assume kv: "(k, v) \<in> set ?mm"
    have "distinct (map fst ?mm)"
      by (simp add: fold_linkDefect_keys initModules_distinct)
    with kv have "map_of ?mm k = Some v" by simp
    then have "map_option (\<lambda>v. v\<lparr> m_linkedDefects := m_linkedDefects v @ linkedIds k ds \<rparr>)
       (map_of (initModules areas) k) = Some v"
      by (simp add: fold_linkDefect_map_of)
    then show "m_moduleName (withPassRate v) = k"
      by (auto simp: initModules_map_of initialModule_def withPassRate_def split: if_splits)
  qed
  then have "map (\<lambda>kv. m_moduleName (withPassRate (snd kv))) ?mm = map fst ?mm"
    by (intro map_cong) auto
  then show ?thesis
    by (simp add: fold_linkDefect_keys comp_def)
qed

section \<open>The tail of an area path\<close>

lemma split_nonempty: "split sep s \<noteq> []"
  by (induction s) (auto split: list.splits)

lemma split_no_sep: "sep \<notin> set s \<Longrightarrow> split sep s = [s]"
  by (induction s) auto

lemma split_append: "split sep (xs @ sep # ys) = split sep xs @ split sep ys"
proof (induction xs)
  case Nil
  show ?case by simp
next
  case (Cons c xs)
  obtain w ws where "split sep xs = w # ws"
    using split_nonempty [of sep xs] by (cases "split sep xs") auto
  with Cons show ?case by simp
qed

lemma pop_snoc: "pop (xs @ [x]) = Some x"
  by (simp add: pop_def)

text \<open>The tail is what follows the last backslash, or the whole path when it has none.\<close>

lemma areaTail_after_backslash:
  assumes "wi_AreaPath d = parent @ backslash # name" and "backslash \<notin> set name"
  shows "areaTail d = name"
  using assms by (simp add: areaTail_def split_append split_no_sep pop_snoc str_or_def)

lemma areaTail_no_backslash:
  assumes "backslash \<notin> set (wi_AreaPath d)"
  shows "areaTail d = wi_AreaPath d"
  using assms pop_snoc [of "[]" "wi_AreaPath d"]
  by (simp add: areaTail_def split_no_sep str_or_def)

lemma pop_split: "pop (split sep s) \<noteq> None"
  using split_nonempty [of sep s] by (cases "rev (split sep s)") (simp_all add: pop_def)

section \<open>What the test-plan strategy returns\<close>

text \<open>The counters of a project of the test-plan strategy.\<close>

lemma getProjectData_counters:
  assumes "getProjectData api n env = Some q" and "getTestRuns api n = Inr runs"
  shows "p_totalTests q = sum_list (map tr_totalTests runs)"
    and "p_passed q = sum_list (map tr_passedTests runs)"
    and "p_failed q = sum_list (map tr_failedTests runs)"
    and "p_skipped q = sum_list (map tr_notApplicableTests runs)"
    and "p_passRate q =
           (if p_totalTests q > 0 then times100 (js_div (p_passed q) (p_totalTests q)) else Num 0)"
    and "\<exists>areas ds. getAreaPaths api n = Inr areas \<and> snd (getDefects api n None) = Inr ds \<and>
           p_modules q = map withPassRate (map snd (fold linkDefect ds (initModules areas)))"
proof -
  from assms(1) obtain runs' areas ds where f: "getTestRuns api n = Inr runs'"
    "getAreaPaths api n = Inr areas" "snd (getDefects api n None) = Inr ds"
    by (rule getProjectData_fetched)
  with assms(2) have "runs' = runs" by simp
  with f getProjectData_Some [of api n runs areas ds env] assms(1)
  have q: "Some q = Some
     \<lparr> p_projectId = ''proj-'' @ n,
       p_projectName = n,
       p_modules = map withPassRate (map snd (fold linkDefect ds (initModules areas))),
       p_totalTests = sum_list (map tr_totalTests runs),
       p_executed = sum_list (map tr_totalTests runs),
       p_passed = sum_list (map tr_passedTests runs),
       p_failed = sum_list (map tr_failedTests runs),
       p_skipped = sum_list (map tr_notApplicableTests runs),
       p_passRate =
         (if sum_list (map tr_totalTests runs) > 0
          then times100 (js_div (sum_list (map tr_passedTests runs))
                 (sum_list (map tr_totalTests runs)))
          else Num 0),
       p_automatedTests = sum_list (map tr_totalTests (filter tr_isAutomated runs)),
       p_manualTests = sum_list (map tr_totalTests (filter (\<lambda>r. \<not> tr_isAutomated r) runs)),
       p_automated =
         buildBreakdown (sum_list (map tr_totalTests (filter tr_isAutomated runs)))
           (sum_list (map tr_passedTests runs)) (sum_list (map tr_failedTests runs))
           (sum_list (map tr_notApplicableTests runs)),
       p_manual =
         buildBreakdown
           (sum_list (map tr_totalTests (filter (\<lambda>r. \<not> tr_isAutomated r) runs))) 0 0 0,
       p_lastRunTime = None,
       p_runCount = None \<rparr>"
    by simp
  show "p_totalTests q = sum_list (map tr_totalTests runs)" using q by simp
  show "p_passed q = sum_list (map tr_passedTests runs)" using q by simp
  show "p_failed q = sum_list (map tr_failedTests runs)" using q by simp
  show "p_skipped q = sum_list (map tr_notApplicableTests runs)" using q by simp
  show "p_passRate q =
           (if p_totalTests q > 0 then times100 (js_div (p_passed q) (p_totalTests q)) else Num 0)"
    using q by (simp del: sum_list_eq_0_iff)
  show "\<exists>areas ds. getAreaPaths api n = Inr areas \<and> snd (getDefects api n None) = Inr ds \<and>
           p_modules q = map withPassRate (map snd (fold linkDefect ds (initModules areas)))"
    using q f by simp
qed

section \<open>Defects and the refresh\<close>

lemma transformDefects_shape:
  "length (transformDefects svc azureDefects environment) = length azureDefects
   \<and> map d_id (transformDefects svc azureDefects environment) =
       map (\<lambda>wi. ''DEF-'' @ string_of_nat (wi_id wi)) azureDefects"
  by (simp add: transformDefects_def transformDefect_def comp_def)

text \<open>
  On a work item whose severity and state are not names of members of
  \<open>Object.prototype\<close>, the severity and the status are values of the two tables.
\<close>

lemma transformDefect_recognised:
  assumes "wi_Severity wi = None \<or> (\<exists>sev. wi_Severity wi = Some sev \<and> sev \<notin> set object_prototype_names)"
    and "wi_State wi \<notin> set object_prototype_names"
  shows "d_severity (transformDefect svc environment wi) \<in> {Own Critical, Own Major, Own Minor, Own Trivial}"
    and "d_status (transformDefect svc environment wi) \<in> {Own Open, Own InProgress, Own Resolved, Own Closed}"
  using assms
  by (auto simp: transformDefect_def lookupProperty_def severityMap_def statusMap_def str_or_def
      object_prototype_names_def split: option.splits if_splits)

text \<open>
  Without organisation or token the refresh takes the demo branch, whatever the mode;
  with both, the service is created, so the message of \<open>fetchFromPipelines\<close> and
  \<open>fetchFromTestPlans\<close> for a missing service is never set by a refresh.
\<close>

lemma refreshData_unconfigured:
  assumes "\<not> isConfigured st"
  shows "refreshData automated manual api r_projects gen st env date s =
           s\<lparr> loading := False,
              dataSourceError := None,
              trends := mock_getTrendData gen env,
              projects := mock_getProjectsData gen env date,
              comparison := mock_getComparisonData gen env,
              defects := mock_getDefects gen env,
              testFailures := mock_getTestFailureDefects gen env date \<rparr>"
  using assms by (simp add: refreshData_def fetchFromDemo_def)

lemma configured_service_exists:
  "isConfigured st \<Longrightarrow> createAzureDevOpsService (s_azureDevOps st) \<noteq> None"
  by (simp add: isConfigured_def createAzureDevOpsService_def isAzureDevOpsConfigured_def)

section \<open>The examples evaluated\<close>

lemma pipelineDay_fails:
  "buildFetchFails pipelineDay project (exampleBuild i d name) = (i = 2)"
  by (simp add: buildFetchFails_def pipelineDay_def offline_def exampleBuild_def
      resultsFetchFails_def exampleRun_def)

lemma pipelineDay_hasTestRuns:
  "hasTestRuns pipelineDay project (exampleBuild i d name) = (i \<noteq> 2)"
  by (simp add: hasTestRuns_def pipelineDay_def offline_def exampleBuild_def)

lemma exampleBuild_id: "bld_id (exampleBuild i d name) = i"
  by (simp add: exampleBuild_def)

lemma pipelineDay_summaries:
  "getTestResultsByPipelines pipelineDay ''Shop'' ''2024-05-01'' =
     Inr [\<lparr> pr_pipelineName = ''CI'', pr_definitionId = 10, pr_buildId = 1,
             pr_buildNumber = ''20240501.1'', pr_completedDate = ''2024-05-01T08:30:00Z'',
             pr_totalTests = 2, pr_passed = 1, pr_failed = 1, pr_skipped = 0,
             pr_results = [exampleResult 1 Passed (Some ''Suite.test_login''),
                           exampleResult 2 Failed None] \<rparr>,
          \<lparr> pr_pipelineName = ''CI'', pr_definitionId = 10, pr_buildId = 3,
             pr_buildNumber = ''20240501.1'', pr_completedDate = ''2024-05-01T08:30:00Z'',
             pr_totalTests = 2, pr_passed = 1, pr_failed = 1, pr_skipped = 0,
             pr_results = [exampleResult 1 Passed (Some ''Suite.test_login''),
                           exampleResult 2 Failed None] \<rparr>]"
  by (simp add: getTestResultsByPipelines_def pipelineDay_def offline_def threeBuilds_def
      buildSummary_def exampleBuild_def exampleRun_def str_or_def)

lemma quietDay_project:
  "getProjectDataFromPipelines automated manual quietDay ''Shop'' ''QA'' ''2024-05-01''
     = Some (emptyProject ''Shop'')"
  by (simp add: getProjectDataFromPipelines_def getTestResultsByPipelines_def quietDay_def
      offline_def buildSummary_def)

lemma testPlanProject_runs:
  "getTestRuns testPlanProject ''ProjectX'' = Inr [exampleRun 1 2 1 0 1]"
  by (simp add: getTestRuns_def testPlanProject_def offline_def)

lemma testPlanProject_areas:
  "getAreaPaths testPlanProject ''ProjectX'' = Inr [''Payments'', ''Orders'']"
  by (simp add: getAreaPaths_def testPlanProject_def offline_def)

lemma testPlanProject_defects:
  "snd (getDefects testPlanProject ''ProjectX'' None) =
     Inr [exampleItem 7 (''ProjectX'' @ [backslash] @ ''Payments'') None,
          exampleItem 8 (''ProjectX'' @ [backslash] @ ''Search'') None]"
  by (simp add: getDefects_def testPlanProject_def offline_def Let_def)

lemma idleProject_runs: "getTestRuns idleProject ''ProjectX'' = Inr []"
  by (simp add: getTestRuns_def idleProject_def)

lemma idleProject_result: "\<exists>q. getProjectData idleProject ''ProjectX'' ''QA'' = Some q"
  by (simp add: getProjectData_def getTestRuns_def getAreaPaths_def getDefects_def Let_def
      idleProject_def testPlanProject_def offline_def)

lemma testPlanProject_result:
  "\<exists>q. getProjectData testPlanProject ''ProjectX'' ''QA'' = Some q"
  by (simp add: getProjectData_Some [OF testPlanProject_runs testPlanProject_areas testPlanProject_defects])

lemma testPlanProject_modules:
  "map_option (map (\<lambda>md. (m_moduleName md, m_linkedDefects md)) \<circ> p_modules)
     (getProjectData testPlanProject ''ProjectX'' ''QA'')
   = Some [(''Payments'', [''7'']), (''Orders'', [])]"
  by (simp add: getProjectData_Some [OF testPlanProject_runs testPlanProject_areas testPlanProject_defects]
      initModules_def linkDefect_def Let_def areaTail_def pop_def str_or_def backslash_def initialModule_def
      withPassRate_def exampleItem_def string_of_nat.simps digit_char_def)

lemma testPlanProject_flat:
  "map d_id (fetchDefects (newService contoso) testPlanProject ''QA'' [''ProjectX''])
     = [''DEF-7'', ''DEF-8'']"
  by (simp add: fetchDefects_def testPlanProject_defects transformDefects_def transformDefect_def
      exampleItem_def string_of_nat.simps digit_char_def)

section \<open>The claims\<close>

subsection \<open>C1: the sum invariant\<close>

text \<open>
  C1 does not hold of the code.  For the project with the areas Payments and Orders and
  one test run of two tests, one of them passed, the test-plan strategy returns a project
  with \<open>totalTests = 2\<close> and \<open>passed = 1\<close> over two modules, and the counters of the
  modules sum to 0: the runs are folded into the counters of the project and never into
  those of a module.
\<close>

theorem test_plan_modules_stay_empty:
  "map_option p_totalTests (getProjectData testPlanProject ''ProjectX'' ''QA'') = Some 2
   \<and> map_option p_passed (getProjectData testPlanProject ''ProjectX'' ''QA'') = Some 1
   \<and> map_option (map m_moduleName \<circ> p_modules)
       (getProjectData testPlanProject ''ProjectX'' ''QA'') = Some [''Payments'', ''Orders'']
   \<and> map_option (sum_list \<circ> map m_totalTests \<circ> p_modules)
       (getProjectData testPlanProject ''ProjectX'' ''QA'') = Some 0
   \<and> map_option (sum_list \<circ> map m_passed \<circ> p_modules)
       (getProjectData testPlanProject ''ProjectX'' ''QA'') = Some 0"
  by (simp add: getProjectData_Some [OF testPlanProject_runs testPlanProject_areas testPlanProject_defects]
      initModules_def linkDefect_def Let_def areaTail_def pop_def str_or_def backslash_def initialModule_def
      withPassRate_def exampleItem_def exampleRun_def)

subsection \<open>C2: one failing build does not abort the others\<close>

text \<open>
  C2.  When the builds of the day are listed, \<open>getTestResultsByPipelines\<close> returns a
  list and does not throw, whatever the fetches for the single builds do; the list holds,
  in the order of the builds, one summary for each build that has test runs and for which
  no fetch throws, and none for a build for which a fetch throws.
\<close>

theorem partial_failure_tolerance:
  assumes "r_buildsByDate api project date = Inr builds"
  shows "\<exists>pipelineResults.
           getTestResultsByPipelines api project date = Inr pipelineResults \<and>
           map pr_buildId pipelineResults =
             map bld_id
               (filter (\<lambda>b. \<not> buildFetchFails api project b \<and> hasTestRuns api project b) builds)"
  using assms forBuilds_buildIds [of api project builds "[]"]
  by (simp add: getTestResultsByPipelines_def)

theorem partial_failure_tolerance_witness:
  "r_buildsByDate pipelineDay ''Shop'' ''2024-05-01'' = Inr threeBuilds \<and>
   (\<exists>pipelineResults.
      getTestResultsByPipelines pipelineDay ''Shop'' ''2024-05-01'' = Inr pipelineResults \<and>
      map pr_buildId pipelineResults = [1, 3])"
proof -
  have builds: "r_buildsByDate pipelineDay ''Shop'' ''2024-05-01'' = Inr threeBuilds"
    by (simp add: pipelineDay_def offline_def)
  from partial_failure_tolerance [OF builds] builds show ?thesis
    by (simp add: threeBuilds_def pipelineDay_fails pipelineDay_hasTestRuns exampleBuild_id)
qed

subsection \<open>C3: pass rates\<close>

text \<open>
  C3, as amended.  The pass rate of a breakdown built by \<open>buildBreakdown\<close> is 0 when
  \<open>passed + failed = 0\<close>.  When \<open>passed + failed > 0\<close> it is the double nearest to a
  number \<open>k / 10\<close> of one decimal place that lies within \<open>1 / 20 + 1 / 2 ^ 44\<close> of
  \<open>passed / (passed + failed) * 100\<close>: the product is a double, and it is this double that
  is rounded to one decimal place; 80 passed and 20 failed give 80, and 41 passed and 39
  failed give 51.2.  The pass rate of a
  project returned by the test-plan strategy is \<open>passed / totalTests * 100\<close> in double
  arithmetic, within its \<open>2 ^ 51\<close>-th part of the exact value, when \<open>totalTests > 0\<close>;
  it is 0 when \<open>totalTests = 0\<close>, and 0 whenever \<open>passed + failed = 0\<close>; and every
  module of such a project with \<open>passed + failed = 0\<close> has the pass rate 0.  Each of these
  rates is a finite number, not \<open>NaN\<close> or \<open>Infinity\<close>.
\<close>

theorem pass_rate:
  "b_passRate (buildBreakdown total' 0 0 skipped) = Num 0
   \<and> (0 < passed + failed \<longrightarrow>
        (\<exists>k. b_passRate (buildBreakdown total' passed failed skipped)
                = Num (double (rat_of_int k / 10))
             \<and> \<bar>rat_of_int k / 10 - rat_of_nat passed / rat_of_nat (passed + failed) * 100\<bar>
                 \<le> 1 / 20 + 1 / 2 ^ 44))
   \<and> b_passRate (buildBreakdown 100 80 20 0) = Num 80
   \<and> (getProjectData api projectName environment = Some q \<longrightarrow>
        (\<forall>md\<in>set (p_modules q). m_passed md + m_failed md = 0 \<longrightarrow> m_passRate md = Num 0) \<and>
        (0 < p_totalTests q \<longrightarrow>
           (\<exists>y. p_passRate q = Num y
                \<and> \<bar>y - rat_of_nat (p_passed q) / rat_of_nat (p_totalTests q) * 100\<bar>
                    \<le> rat_of_nat (p_passed q) / rat_of_nat (p_totalTests q) * 100 / 2 ^ 51)))
   \<and> (getProjectData api' projectName' environment' = Some q' \<longrightarrow>
        (p_totalTests q' = 0 \<longrightarrow> p_passRate q' = Num 0) \<and>
        (p_passed q' + p_failed q' = 0 \<longrightarrow> p_passRate q' = Num 0))"
proof (intro conjI impI)
  show "b_passRate (buildBreakdown total' 0 0 skipped) = Num 0"
    by (rule buildBreakdown_zero)
  show "b_passRate (buildBreakdown 100 80 20 0) = Num 80"
    by (rule buildBreakdown_80_20)
next
  assume "0 < passed + failed"
  then show "\<exists>k. b_passRate (buildBreakdown total' passed failed skipped)
                = Num (double (rat_of_int k / 10))
             \<and> \<bar>rat_of_int k / 10 - rat_of_nat passed / rat_of_nat (passed + failed) * 100\<bar>
                 \<le> 1 / 20 + 1 / 2 ^ 44"
    by (rule buildBreakdown_rounded)
next
  assume q: "getProjectData api projectName environment = Some q"
  then obtain runs where runs: "getTestRuns api projectName = Inr runs"
    by (auto elim: getProjectData_fetched)
  note c = getProjectData_counters [OF q runs]
  from c(6) obtain areas ds where
    "p_modules q = map withPassRate (map snd (fold linkDefect ds (initModules areas)))"
    by blast
  then show "\<forall>md\<in>set (p_modules q). m_passed md + m_failed md = 0 \<longrightarrow> m_passRate md = Num 0"
    using module_in_map [of _ ds areas] by simp
  assume t: "0 < p_totalTests q"
  from percent_error [OF t, of "p_passed q"] c(5) t
  show "\<exists>y. p_passRate q = Num y
                \<and> \<bar>y - rat_of_nat (p_passed q) / rat_of_nat (p_totalTests q) * 100\<bar>
                    \<le> rat_of_nat (p_passed q) / rat_of_nat (p_totalTests q) * 100 / 2 ^ 51"
    by auto
next
  assume q: "getProjectData api' projectName' environment' = Some q'"
    and "p_totalTests q' = 0"
  from q obtain runs where runs: "getTestRuns api' projectName' = Inr runs"
    by (auto elim: getProjectData_fetched)
  from getProjectData_counters(5) [OF q runs] \<open>p_totalTests q' = 0\<close>
  show "p_passRate q' = Num 0" by simp
next
  assume q: "getProjectData api' projectName' environment' = Some q'"
    and z: "p_passed q' + p_failed q' = 0"
  from q obtain runs where runs: "getTestRuns api' projectName' = Inr runs"
    by (auto elim: getProjectData_fetched)
  from z have "p_passed q' = 0" by simp
  with getProjectData_counters(5) [OF q runs]
  show "p_passRate q' = Num 0" by (simp add: percent_0)
qed

text \<open>
  The claim as stated fails on the project of the test-plan strategy, whose denominator
  is \<open>totalTests\<close>: one passed and one not applicable test give the rate 50, where
  \<open>passed / (passed + failed) * 100\<close> is 100.
\<close>

theorem pass_rate_counterexample:
  "map_option p_passed (getProjectData testPlanProject ''ProjectX'' ''QA'') = Some 1 \<and>
   map_option p_failed (getProjectData testPlanProject ''ProjectX'' ''QA'') = Some 0 \<and>
   map_option p_passRate (getProjectData testPlanProject ''ProjectX'' ''QA'') = Some (Num 50) \<and>
   times100 (js_div 1 (1 + 0)) = Num 100"
proof -
  obtain q where q: "getProjectData testPlanProject ''ProjectX'' ''QA'' = Some q"
    using testPlanProject_result by blast
  note c = getProjectData_counters [OF q testPlanProject_runs]
  have t: "p_totalTests q = 2" and p: "p_passed q = 1" and f: "p_failed q = 0"
    using c(1-3) by (simp_all add: exampleRun_def)
  have "0 < p_totalTests q" using t by simp
  with c(5) have "p_passRate q = times100 (js_div (p_passed q) (p_totalTests q))"
    by (simp only: if_True)
  then have "p_passRate q = Num 50"
    by (simp only: percent_1_2 [OF p t])
  moreover have "times100 (js_div 1 (1 + 0)) = Num 100"
    by (rule percent_1_1) simp_all
  ultimately show ?thesis using p f by (simp add: q)
qed

theorem pass_rate_witness:
  "0 < (41::nat) + 39
   \<and> b_passRate (buildBreakdown 80 41 39 0) = Num (double (512 / 10))
   \<and> (\<exists>k. b_passRate (buildBreakdown 80 41 39 0) = Num (double (rat_of_int k / 10))
          \<and> \<bar>rat_of_int k / 10 - rat_of_nat 41 / rat_of_nat (41 + 39) * 100\<bar>
              \<le> 1 / 20 + 1 / 2 ^ 44)
   \<and> (\<exists>q. getProjectData testPlanProject ''ProjectX'' ''QA'' = Some q
          \<and> p_passed q = 1 \<and> p_totalTests q = 2 \<and> p_passRate q = Num 50
          \<and> list_all (\<lambda>md. m_passed md + m_failed md = 0 \<and> m_passRate md = Num 0) (p_modules q))
   \<and> (\<exists>q'. getProjectData idleProject ''ProjectX'' ''QA'' = Some q'
          \<and> p_totalTests q' = 0 \<and> p_passed q' + p_failed q' = 0 \<and> p_passRate q' = Num 0)"
proof -
  obtain q where q: "getProjectData testPlanProject ''ProjectX'' ''QA'' = Some q"
    using testPlanProject_result by blast
  obtain q' where q': "getProjectData idleProject ''ProjectX'' ''QA'' = Some q'"
    using idleProject_result by blast
  note T = pass_rate [where total' = 80 and skipped = 0 and passed = 41 and failed = 39
      and api = testPlanProject and projectName = "''ProjectX''" and environment = "''QA''"
      and q = q and api' = idleProject and projectName' = "''ProjectX''"
      and environment' = "''QA''" and q' = q']
  note c = getProjectData_counters [OF q testPlanProject_runs]
  note c' = getProjectData_counters [OF q' idleProject_runs]
  have n: "0 < (41::nat) + 39" by simp
  have t: "p_totalTests q = 2" and p: "p_passed q = 1"
    using c(1,2) by (simp_all add: exampleRun_def)
  have t': "p_totalTests q' = 0" and p': "p_passed q' + p_failed q' = 0"
    using c'(1-3) by simp_all
  note k = T [THEN conjunct2, THEN conjunct1, THEN mp, OF n]
  note g = T [THEN conjunct2, THEN conjunct2, THEN conjunct2, THEN conjunct1, THEN mp, OF q]
  note g' = T [THEN conjunct2, THEN conjunct2, THEN conjunct2, THEN conjunct2, THEN mp, OF q']
  from c(6) obtain areas ds where
    "p_modules q = map withPassRate (map snd (fold linkDefect ds (initModules areas)))"
    by blast
  then have z: "\<forall>md\<in>set (p_modules q). m_passed md + m_failed md = 0"
    using module_in_map [of _ ds areas] by simp
  with g [THEN conjunct1]
  have ms: "list_all (\<lambda>md. m_passed md + m_failed md = 0 \<and> m_passRate md = Num 0) (p_modules q)"
    by (simp add: list_all_iff)
  have r': "p_passRate q' = Num 0"
    by (rule g' [THEN conjunct1, THEN mp, OF t'])
  have "0 < p_totalTests q" using t by simp
  with c(5) have "p_passRate q = times100 (js_div (p_passed q) (p_totalTests q))"
    by (simp only: if_True)
  then have r: "p_passRate q = Num 50"
    by (simp only: percent_1_2 [OF p t])
  show ?thesis
  proof (intro conjI)
    show "0 < (41::nat) + 39" by (rule n)
    show "b_passRate (buildBreakdown 80 41 39 0) = Num (double (512 / 10))"
      by (rule buildBreakdown_41_39)
    show "\<exists>k. b_passRate (buildBreakdown 80 41 39 0) = Num (double (rat_of_int k / 10))
          \<and> \<bar>rat_of_int k / 10 - rat_of_nat 41 / rat_of_nat (41 + 39) * 100\<bar>
              \<le> 1 / 20 + 1 / 2 ^ 44"
      by (rule k)
    show "\<exists>q. getProjectData testPlanProject ''ProjectX'' ''QA'' = Some q
          \<and> p_passed q = 1 \<and> p_totalTests q = 2 \<and> p_passRate q = Num 50
          \<and> list_all (\<lambda>md. m_passed md + m_failed md = 0 \<and> m_passRate md = Num 0) (p_modules q)"
      using q p t r ms by blast
    show "\<exists>q'. getProjectData idleProject ''ProjectX'' ''QA'' = Some q'
          \<and> p_totalTests q' = 0 \<and> p_passed q' + p_failed q' = 0 \<and> p_passRate q' = Num 0"
      using q' t' p' r' by blast
  qed
qed

subsection \<open>C4: one module for each pipeline definition\<close>

text \<open>
  C4 does not hold of the code.  On the day of the three builds, the builds 1 and 3 of
  the pipeline definition 10 leave two summaries of that definition: the summaries are
  not grouped.  The callback maps each summary to a module of its own, so that two
  modules carry the id \<open>pipeline-10\<close> once its two free identifiers are bound; as the file
  stands they are not, and the call returns \<open>null\<close>.
\<close>

theorem builds_of_one_definition_not_grouped:
  "map_sum id (map pr_definitionId) (getTestResultsByPipelines pipelineDay ''Shop'' ''2024-05-01'')
     = Inr [10, 10]
   \<and> map_sum id (map m_moduleId)
       (bindE (getTestResultsByPipelines pipelineDay ''Shop'' ''2024-05-01'')
          (mapE (pipelineModule (Some 0) (Some 0))))
     = Inr [''pipeline-10'', ''pipeline-10'']
   \<and> getProjectDataFromPipelines None None pipelineDay ''Shop'' ''QA'' ''2024-05-01'' = None"
  by (simp add: pipelineDay_summaries bindE_def pipelineModule_def string_of_nat.simps
      digit_char_def getProjectDataFromPipelines_cases)

subsection \<open>C5: the breakdowns of a module of the pipeline strategy\<close>

text \<open>
  C5 does not hold of the code.  On the day of the three builds the callback counts, for
  each summary, one automated result, passed, and one manual result; but the module it
  returns has neither an \<open>automated\<close> nor a \<open>manual\<close> breakdown, whatever its two free
  identifiers are bound to, and the call returns \<open>null\<close>, with the identifiers bound or
  not.
\<close>

theorem module_breakdowns_not_built:
  "map_sum id (map autoCount) (getTestResultsByPipelines pipelineDay ''Shop'' ''2024-05-01'')
     = Inr [1, 1]
   \<and> map_sum id (map autoPassed) (getTestResultsByPipelines pipelineDay ''Shop'' ''2024-05-01'')
     = Inr [1, 1]
   \<and> map_sum id (map manualCount) (getTestResultsByPipelines pipelineDay ''Shop'' ''2024-05-01'')
     = Inr [1, 1]
   \<and> map_sum id (map m_automated)
       (bindE (getTestResultsByPipelines pipelineDay ''Shop'' ''2024-05-01'')
          (mapE (pipelineModule (Some 1) (Some 1))))
     = Inr [None, None]
   \<and> map_sum id (map m_manual)
       (bindE (getTestResultsByPipelines pipelineDay ''Shop'' ''2024-05-01'')
          (mapE (pipelineModule (Some 1) (Some 1))))
     = Inr [None, None]
   \<and> getProjectDataFromPipelines (Some 1) (Some 1) pipelineDay ''Shop'' ''QA'' ''2024-05-01'' = None
   \<and> getProjectDataFromPipelines None None pipelineDay ''Shop'' ''QA'' ''2024-05-01'' = None"
  by (simp add: pipelineDay_summaries bindE_def pipelineModule_def autoCount_def autoPassed_def
      manualCount_def truthy_def exampleResult_def getProjectDataFromPipelines_cases)

subsection \<open>C6: defects are linked to the module of their area\<close>

text \<open>
  C6.  When the three fetches of \<open>getProjectData\<close> succeed, the project it returns has
  one module for each distinct area path, and the \<open>linkedDefects\<close> of each module are
  the ids of exactly those fetched defects whose area path ends, after its last
  backslash, in the name of that module, in the order they were fetched.  As the names of
  the modules are distinct, a defect is linked to the one module that bears the tail of
  its area path, and to none when no module does.  The flat list of the refresh holds
  every fetched defect, linked or not.
\<close>

theorem defect_linkage:
  assumes "getTestRuns api projectName = Inr testRuns"
    and "getAreaPaths api projectName = Inr areaPaths"
    and "snd (getDefects api projectName None) = Inr ds"
  shows "\<exists>p. getProjectData api projectName environment = Some p
           \<and> set (map m_moduleName (p_modules p)) = set areaPaths
           \<and> distinct (map m_moduleName (p_modules p))
           \<and> (\<forall>md\<in>set (p_modules p).
                 m_linkedDefects md =
                   map (\<lambda>d. string_of_nat (wi_id d))
                     (filter (\<lambda>d. areaTail d = m_moduleName md) ds))
           \<and> map d_id (fetchDefects svc api environment [projectName]) =
                 map (\<lambda>d. ''DEF-'' @ string_of_nat (wi_id d)) ds"
proof -
  let ?ms = "map withPassRate (map snd (fold linkDefect ds (initModules areaPaths)))"
  from getProjectData_Some [OF assms, of environment]
  obtain p where p: "getProjectData api projectName environment = Some p"
    and ms: "p_modules p = ?ms"
    by simp
  have names: "map m_moduleName (p_modules p) = map fst (initModules areaPaths)"
    unfolding ms by (rule module_names)
  have "\<forall>md\<in>set (p_modules p).
          m_linkedDefects md =
            map (\<lambda>d. string_of_nat (wi_id d)) (filter (\<lambda>d. areaTail d = m_moduleName md) ds)"
    using module_in_map [of _ ds areaPaths] unfolding ms linkedIds_def by blast
  moreover have "map d_id (fetchDefects svc api environment [projectName]) =
      map (\<lambda>d. ''DEF-'' @ string_of_nat (wi_id d)) ds"
    using assms(3) by (simp add: fetchDefects_def transformDefects_def transformDefect_def comp_def)
  moreover have "set (map m_moduleName (p_modules p)) = set areaPaths"
    unfolding names by (rule initModules_keys_set)
  moreover have "distinct (map m_moduleName (p_modules p))"
    unfolding names by (rule initModules_distinct)
  ultimately show ?thesis
    using p by blast
qed

theorem defect_linkage_witness:
  "getTestRuns testPlanProject ''ProjectX'' = Inr [exampleRun 1 2 1 0 1]
   \<and> getAreaPaths testPlanProject ''ProjectX'' = Inr [''Payments'', ''Orders'']
   \<and> snd (getDefects testPlanProject ''ProjectX'' None) =
        Inr [exampleItem 7 (''ProjectX'' @ [backslash] @ ''Payments'') None,
             exampleItem 8 (''ProjectX'' @ [backslash] @ ''Search'') None]
   \<and> (\<exists>p. getProjectData testPlanProject ''ProjectX'' ''QA'' = Some p
         \<and> set (map m_moduleName (p_modules p)) = {''Payments'', ''Orders''}
         \<and> map (\<lambda>md. (m_moduleName md, m_linkedDefects md)) (p_modules p)
              = [(''Payments'', [''7'']), (''Orders'', [])])
   \<and> map d_id (fetchDefects (newService contoso) testPlanProject ''QA'' [''ProjectX''])
        = [''DEF-7'', ''DEF-8'']"
proof -
  from defect_linkage [OF testPlanProject_runs testPlanProject_areas testPlanProject_defects,
      of "''QA''" "newService contoso"]
  obtain p where "getProjectData testPlanProject ''ProjectX'' ''QA'' = Some p"
    and "set (map m_moduleName (p_modules p)) = set [''Payments'', ''Orders'']"
    by blast
  with testPlanProject_modules testPlanProject_runs testPlanProject_areas testPlanProject_defects
    testPlanProject_flat
  show ?thesis by auto
qed

subsection \<open>C7: the refresh without a configuration\<close>

text \<open>
  C7, as amended.  When the mode is \<open>pipelines\<close> or \<open>testplans\<close> and the configuration
  has an empty organisation and an empty token, \<open>refreshData\<close> ends with the output of the
  synthetic data generator in the five data fields, with \<open>loading\<close> false, and with the
  error message cleared: \<open>dataSourceError\<close> is \<open>null\<close>.
\<close>

theorem unconfigured_refresh:
  assumes "dataSource st = Pipelines \<or> dataSource st = Testplans"
    and "cfg_organization (s_azureDevOps st) = []"
    and "cfg_personalAccessToken (s_azureDevOps st) = []"
  shows "refreshData automated manual api r_projects gen st env date s =
           s\<lparr> loading := False,
              dataSourceError := None,
              trends := mock_getTrendData gen env,
              projects := mock_getProjectsData gen env date,
              comparison := mock_getComparisonData gen env,
              defects := mock_getDefects gen env,
              testFailures := mock_getTestFailureDefects gen env date \<rparr>"
  using assms(2) by (intro refreshData_unconfigured) (simp add: isConfigured_def)

text \<open>
  The claim as stated asks for a message that is not \<open>null\<close>; the refresh of the
  unconfigured settings in the mode \<open>pipelines\<close> shows the demo project without one.
\<close>

theorem unconfigured_refresh_counterexample:
  "dataSource unconfigured = Pipelines
   \<and> cfg_organization (s_azureDevOps unconfigured) = []
   \<and> cfg_personalAccessToken (s_azureDevOps unconfigured) = []
   \<and> projects (refreshData None None offline (Inl (NetworkError ''Failed to fetch'')) demoData
        unconfigured ''QA'' ''2024-05-01'' initialState) = [demoProject]
   \<and> dataSourceError (refreshData None None offline (Inl (NetworkError ''Failed to fetch''))
        demoData unconfigured ''QA'' ''2024-05-01'' initialState) = None"
  by (simp add: refreshData_def fetchFromDemo_def isConfigured_def unconfigured_def dataSource_def
      demoData_def initialState_def)

theorem unconfigured_refresh_witness:
  "(dataSource unconfigured = Pipelines \<or> dataSource unconfigured = Testplans)
   \<and> cfg_organization (s_azureDevOps unconfigured) = []
   \<and> cfg_personalAccessToken (s_azureDevOps unconfigured) = []
   \<and> refreshData None None offline (Inl (NetworkError ''Failed to fetch'')) demoData
        unconfigured ''QA'' ''2024-05-01'' initialState
      = \<lparr> loading = False, dataSourceError = None, trends = (), projects = [demoProject],
          comparison = (), defects = [], testFailures = () \<rparr>"
proof -
  have m: "dataSource unconfigured = Pipelines \<or> dataSource unconfigured = Testplans"
    by (simp add: unconfigured_def dataSource_def)
  have o: "cfg_organization (s_azureDevOps unconfigured) = []"
    by (simp add: unconfigured_def)
  have t: "cfg_personalAccessToken (s_azureDevOps unconfigured) = []"
    by (simp add: unconfigured_def)
  from unconfigured_refresh [OF m o t, of None None offline
      "Inl (NetworkError ''Failed to fetch'')" demoData "''QA''" "''2024-05-01''" initialState] m o t
  show ?thesis
    by (simp add: demoData_def initialState_def)
qed

subsection \<open>C8: the ids of a defect query are cut to 200\<close>

text \<open>
  C8.  When the query of \<open>getDefects\<close> answers more than 200 work items, the requests
  sent are the query and one fetch of work items, for exactly the first 200 ids of the
  answer in its order; what \<open>getDefects\<close> returns is the answer to that one fetch.
\<close>

theorem defects_batch_cap:
  assumes "r_wiql api project (defectQuery project states) = Inr (Some workItems)"
    and "length workItems > 200"
  shows "fst (getDefects api project states) =
           [WiqlQuery project (defectQuery project states),
            WorkItemsBatch project (take 200 workItems)]
         \<and> length (take 200 workItems) = 200
         \<and> snd (getDefects api project states) = r_workItems api project (take 200 workItems)"
  using assms by (auto simp: getDefects_def Let_def)

theorem defects_batch_cap_witness:
  "r_wiql manyBugs ''ProjectX'' (defectQuery ''ProjectX'' None) = Inr (Some [1..<351])
   \<and> length [1..<351] = 350
   \<and> fst (getDefects manyBugs ''ProjectX'' None) =
        [WiqlQuery ''ProjectX'' (defectQuery ''ProjectX'' None),
         WorkItemsBatch ''ProjectX'' [1..<201]]
   \<and> length [1..<201] = 200"
proof -
  have q: "r_wiql manyBugs ''ProjectX'' (defectQuery ''ProjectX'' None) = Inr (Some [1..<351])"
    by (simp add: manyBugs_def offline_def)
  have n: "length [1..<351] > 200" by simp
  from defects_batch_cap [OF q n] q show ?thesis by simp
qed

subsection \<open>C9: a day without test data\<close>

text \<open>
  C9.  When the builds of the day are listed and every one of them has an empty list of
  test runs, \<open>getProjectDataFromPipelines\<close> returns a project, not \<open>null\<close>, with no module
  and with every counter, the pass rate and both breakdowns at zero.
\<close>

theorem no_test_data_empty_project:
  assumes "r_buildsByDate api projectName date = Inr builds"
    and "\<forall>b\<in>set builds. r_testRunsForBuild api projectName (bld_id b) = Inr []"
  shows "\<exists>p. getProjectDataFromPipelines automated manual api projectName environment date = Some p
           \<and> p_modules p = [] \<and> p_totalTests p = 0 \<and> p_executed p = 0 \<and> p_passed p = 0
           \<and> p_failed p = 0 \<and> p_skipped p = 0 \<and> p_passRate p = Num 0
           \<and> p_automatedTests p = 0 \<and> p_manualTests p = 0
           \<and> p_automated p =
                 \<lparr> b_total = 0, b_passed = 0, b_failed = 0, b_skipped = 0, b_passRate = Num 0 \<rparr>
           \<and> p_manual p =
                 \<lparr> b_total = 0, b_passed = 0, b_failed = 0, b_skipped = 0, b_passRate = Num 0 \<rparr>"
proof -
  from assms(2) have "list_all (\<lambda>b. \<not> hasTestRuns api projectName b) builds"
    by (simp add: list_all_iff hasTestRuns_def)
  then have "forBuilds api projectName builds [] = []"
    by (rule forBuilds_empty)
  with assms(1) have "getTestResultsByPipelines api projectName date = Inr []"
    by (simp add: getTestResultsByPipelines_def)
  then have "getProjectDataFromPipelines automated manual api projectName environment date
      = Some (emptyProject projectName)"
    by (simp add: getProjectDataFromPipelines_def)
  then show ?thesis
    by (simp add: emptyProject_def buildBreakdown_def)
qed

theorem no_test_data_empty_project_witness:
  "r_buildsByDate quietDay ''Shop'' ''2024-05-01'' = Inr [exampleBuild 1 10 ''CI''] \<and>
   r_testRunsForBuild quietDay ''Shop'' (bld_id (exampleBuild 1 10 ''CI'')) = Inr [] \<and>
   (\<exists>p. getProjectDataFromPipelines None None quietDay ''Shop'' ''QA'' ''2024-05-01'' = Some p
      \<and> p_modules p = [] \<and> p_totalTests p = 0 \<and> p_passed p = 0 \<and> p_passRate p = Num 0)"
proof -
  have builds: "r_buildsByDate quietDay ''Shop'' ''2024-05-01'' = Inr [exampleBuild 1 10 ''CI'']"
    by (simp add: quietDay_def offline_def)
  have runs: "\<forall>b\<in>set [exampleBuild 1 10 ''CI'']. r_testRunsForBuild quietDay ''Shop'' (bld_id b) = Inr []"
    by (simp add: quietDay_def offline_def)
  from no_test_data_empty_project [OF builds runs, of None None "''QA''"] builds runs
  show ?thesis by auto
qed

subsection \<open>C10: the severity and status of a transformed defect\<close>

text \<open>
  C10 does not hold of the code.  A work item whose severity field is \<open>constructor\<close>,
  the name of a member of \<open>Object.prototype\<close>, is not mapped to \<open>minor\<close>: the lookup in
  \<open>severityMap\<close> finds the inherited member, and the defect carries it as its severity.
\<close>

theorem inherited_severity_leaks:
  "map d_severity
     (transformDefects (newService contoso)
        [exampleItem 7 ''ProjectX'' (Some ''constructor'')] ''QA'')
   = [Inherited ''constructor'']
   \<and> Inherited ''constructor'' \<notin> {Own Critical, Own Major, Own Minor, Own Trivial}"
  by (simp add: transformDefects_def transformDefect_def exampleItem_def lookupProperty_def
      severityMap_def object_prototype_names_def str_or_def)

end
